theory Spec2Isabelle
  imports Main
begin

section \<open>The skill validator of \<open>scripts/validate-spec.py\<close>\<close>

text \<open>
  A shallow embedding of the validator script. Python \<open>str\<close> values are modelled as
  \<open>string\<close>, one \<open>char\<close> per character (so the model covers texts whose characters
  fit a \<open>char\<close>). The YAML parser, the operating system's resolution of link targets
  and the command-line parser are external: the first two are function parameters, the
  third is represented by its result, the parsed arguments.
\<close>

subsection \<open>String operations of Python used by the script\<close>

definition nl :: char where
  "nl = CHR 0x0A"

definition sq :: string where
  "sq = [CHR 0x27]"

definition dq :: string where
  "dq = [CHR 0x22]"

text \<open>\<open>s.startswith(p)\<close>.\<close>

fun startswith :: "string \<Rightarrow> string \<Rightarrow> bool" where
  "startswith s [] = True"
| "startswith [] (p # ps) = False"
| "startswith (c # cs) (p # ps) = (c = p \<and> startswith cs ps)"

text \<open>\<open>s.endswith(p)\<close>.\<close>

definition endswith :: "string \<Rightarrow> string \<Rightarrow> bool" where
  "endswith s p = startswith (rev s) (rev p)"

text \<open>\<open>k in s\<close> for strings: \<open>k\<close> occurs in \<open>s\<close> as a contiguous substring.\<close>

fun contains :: "string \<Rightarrow> string \<Rightarrow> bool" where
  "contains [] k = (k = [])"
| "contains (c # cs) k = (startswith (c # cs) k \<or> contains cs k)"

text \<open>
  \<open>s.find(sub, start)\<close>: the lowest index \<open>i \<ge> start\<close> at which \<open>sub\<close> occurs in
  \<open>s\<close>; Python's \<open>-1\<close> is \<open>None\<close>.
\<close>

fun find_idx :: "string \<Rightarrow> string \<Rightarrow> nat \<Rightarrow> nat option" where
  "find_idx sub [] i = (if sub = [] then Some i else None)"
| "find_idx sub (c # cs) i =
     (if startswith (c # cs) sub then Some i else find_idx sub cs (Suc i))"

definition find_str :: "string \<Rightarrow> string \<Rightarrow> nat \<Rightarrow> nat option" where
  "find_str s sub start =
     (if length s < start then None else find_idx sub (drop start s) start)"

text \<open>\<open>s.split(c)\<close> for a one-character separator: never the empty list.\<close>

fun split_str :: "char \<Rightarrow> string \<Rightarrow> string list" where
  "split_str c [] = [[]]"
| "split_str c (x # xs) =
     (if x = c then [] # split_str c xs
      else (case split_str c xs of
              y # ys \<Rightarrow> (x # y) # ys
            | [] \<Rightarrow> [[x]]))"

text \<open>
  \<open>s.lower()\<close> on the characters a \<open>char\<close> holds: the ASCII capitals and the
  capitals \<open>0xC0\<close> to \<open>0xDE\<close> (but for the multiplication sign \<open>0xD7\<close>) move up by 32.
\<close>

definition lower_char :: "char \<Rightarrow> char" where
  "lower_char c =
     (let n = (of_char c :: nat)
      in if (65 \<le> n \<and> n \<le> 90) \<or> (192 \<le> n \<and> n \<le> 222 \<and> n \<noteq> 215)
         then char_of (n + 32) else c)"

definition lower :: "string \<Rightarrow> string" where
  "lower s = map lower_char s"

text \<open>
  The characters \<open>s.strip()\<close> removes: tab to carriage return, the four separators
  \<open>0x1C\<close> to \<open>0x1F\<close>, the space, next line \<open>0x85\<close> and the no-break space \<open>0xA0\<close>.
\<close>

definition isspace :: "char \<Rightarrow> bool" where
  "isspace c =
     (let n = (of_char c :: nat)
      in (9 \<le> n \<and> n \<le> 13) \<or> (28 \<le> n \<and> n \<le> 32) \<or> n = 133 \<or> n = 160)"

definition strip :: "string \<Rightarrow> string" where
  "strip s = rev (dropWhile isspace (rev (dropWhile isspace s)))"

text \<open>\<open>str(n)\<close> for a length: the decimal digits.\<close>

fun str_nat :: "nat \<Rightarrow> string" where
  "str_nat n =
     (if n < 10 then [char_of (48 + n)]
      else str_nat (n div 10) @ [char_of (48 + n mod 10)])"

declare str_nat.simps [simp del]

text \<open>
  \<open>re.match(r'^[a-z0-9-]+$', name)\<close>: a non-empty run of lower-case letters, digits
  and hyphens from the start; \<open>$\<close> matches at the end of the string and also just
  before a newline that ends it.
\<close>

definition name_char :: "char \<Rightarrow> bool" where
  "name_char c =
     (let n = (of_char c :: nat)
      in (97 \<le> n \<and> n \<le> 122) \<or> (48 \<le> n \<and> n \<le> 57) \<or> n = 45)"

definition name_re_match :: "string \<Rightarrow> bool" where
  "name_re_match name =
     (let run = takeWhile name_char name; rest = dropWhile name_char name
      in run \<noteq> [] \<and> (rest = [] \<or> rest = [nl]))"

text \<open>
  \<open>re.findall(r'\[([^\]]+)\]\(([^)]+)\)', line)\<close>. Both character classes exclude
  the character that must follow them, so each greedy run is the longest one and no
  shorter run can match: an attempt at a position either succeeds with these runs or
  fails. \<open>match_link\<close> is the attempt at the start of its argument; it returns the
  two groups and the number of characters matched. \<open>findall\<close> scans from left to
  right and resumes after each match.
\<close>

definition match_link :: "string \<Rightarrow> ((string \<times> string) \<times> nat) option" where
  "match_link s =
     (case s of
        [] \<Rightarrow> None
      | c # r \<Rightarrow>
          if c \<noteq> CHR ''['' then None
          else
            let t = takeWhile (\<lambda>x. x \<noteq> CHR '']'') r;
                r1 = dropWhile (\<lambda>x. x \<noteq> CHR '']'') r
            in if t = [] then None
               else (case r1 of
                       a # b # r2 \<Rightarrow>
                         if a = CHR '']'' \<and> b = CHR ''('' then
                           let p = takeWhile (\<lambda>x. x \<noteq> CHR '')'') r2;
                               r3 = dropWhile (\<lambda>x. x \<noteq> CHR '')'') r2
                           in if p = [] then None
                              else (case r3 of
                                      [] \<Rightarrow> None
                                    | d # r4 \<Rightarrow> Some ((t, p), length t + length p + 4))
                         else None
                     | _ \<Rightarrow> None))"

fun findall :: "string \<Rightarrow> (string \<times> string) list" where
  "findall [] = []"
| "findall (c # cs) =
     (case match_link (c # cs) of
        None \<Rightarrow> findall cs
      | Some (m, n) \<Rightarrow> m # findall (drop (n - 1) cs))"

subsection \<open>Paths and the file system\<close>

text \<open>
  A \<open>Path\<close> is the list of its components, relative to the working directory. The
  file system is a tree rooted there. A file is its text as \<open>read_text\<close> returns it,
  or the text of the exception reading it raises.
\<close>

type_synonym Path = "string list"

datatype node = File string | Unreadable string | Dir "(string \<times> node) list"

text \<open>\<open>p.name\<close>: the last component, empty for the path without components.\<close>

definition path_name :: "Path \<Rightarrow> string" where
  "path_name p = (if p = [] then [] else last p)"

fun join_path :: "Path \<Rightarrow> string" where
  "join_path [] = []"
| "join_path [x] = x"
| "join_path (x # y # ys) = x @ ''/'' @ join_path (y # ys)"

text \<open>\<open>str(p)\<close>.\<close>

definition str_path :: "Path \<Rightarrow> string" where
  "str_path p = (if p = [] then ''.'' else join_path p)"

fun lookup :: "node \<Rightarrow> Path \<Rightarrow> node option" where
  "lookup n [] = Some n"
| "lookup (Dir es) (x # xs) =
     (case map_of es x of None \<Rightarrow> None | Some m \<Rightarrow> lookup m xs)"
| "lookup (File c) (x # xs) = None"
| "lookup (Unreadable e) (x # xs) = None"

text \<open>\<open>p.exists()\<close> and \<open>p.is_dir()\<close>.\<close>

definition exists :: "node \<Rightarrow> Path \<Rightarrow> bool" where
  "exists fs p = (lookup fs p \<noteq> None)"

definition is_dir :: "node \<Rightarrow> Path \<Rightarrow> bool" where
  "is_dir fs p = (case lookup fs p of Some (Dir es) \<Rightarrow> True | _ \<Rightarrow> False)"

text \<open>
  \<open>p.iterdir()\<close>: the paths of the entries of a directory. The script lists only
  paths it has found to be directories; on anything else Python raises, and the model
  lists nothing.
\<close>

definition iterdir :: "node \<Rightarrow> Path \<Rightarrow> Path list" where
  "iterdir fs p =
     (case lookup fs p of
        Some (Dir es) \<Rightarrow> map (\<lambda>e. p @ [fst e]) es
      | _ \<Rightarrow> [])"

text \<open>\<open>p.read_text(encoding='utf-8')\<close>: the text, or the text of the exception.\<close>

definition read_text :: "node \<Rightarrow> Path \<Rightarrow> string + string" where
  "read_text fs p =
     (case lookup fs p of
        Some (File c) \<Rightarrow> Inr c
      | Some (Unreadable e) \<Rightarrow> Inl e
      | Some (Dir es) \<Rightarrow> Inl (''[Errno 21] Is a directory: '' @ sq @ str_path p @ sq)
      | None \<Rightarrow> Inl (''[Errno 2] No such file or directory: '' @ sq @ str_path p @ sq))"

subsection \<open>YAML values\<close>

text \<open>
  What \<open>yaml.safe_load\<close> returns. \<open>YOther t\<close> is a value of any other Python type
  (a float, a date, bytes), with the name \<open>t\<close> of its type.
\<close>

datatype yval =
    YNull
  | YBool bool
  | YInt int
  | YStr string
  | YList "yval list"
  | YDict "(yval \<times> yval) list"
  | YOther string

text \<open>\<open>type(x).__name__\<close>.\<close>

fun type_name :: "yval \<Rightarrow> string" where
  "type_name YNull = ''NoneType''"
| "type_name (YBool b) = ''bool''"
| "type_name (YInt i) = ''int''"
| "type_name (YStr s) = ''str''"
| "type_name (YList xs) = ''list''"
| "type_name (YDict d) = ''dict''"
| "type_name (YOther t) = t"

subsection \<open>Diagnostics\<close>

text \<open>
  Every message of the script is a format string. A message is kept as the format
  string it comes from, one constructor each, with the values it interpolates;
  \<open>message_text\<close> renders it. Characters beyond ASCII in a format string are given by
  their UTF-8 bytes.
\<close>

datatype msg =
    MissingSkillMd Path
  | FailedToRead string
  | MustStartWithFrontmatter
  | FrontmatterNotClosed
  | FrontmatterNotDict
  | InvalidYaml string
  | UnexpectedDirectory string
  | MissingName
  | MissingDescription
  | MetadataNotDict
  | NameNotString string
  | NameTooLong nat
  | NameBadFormat
  | NameReserved string
  | NameXml
  | NameDirMismatch string string
  | NameGerund string
  | DescriptionNotString string
  | DescriptionEmpty
  | DescriptionTooLong nat
  | DescriptionXml
  | DescriptionNoTrigger
  | DescriptionFirstPerson
  | DescriptionFewSentences
  | LicenseNotString string
  | CompatibilityNotString string
  | TooManyLines nat
  | BrokenReference string
  | SkillsDirNotFound Path
  | NotADirectory Path

definition RESERVED_WORDS :: "string list" where
  "RESERVED_WORDS = [''anthropic'', ''claude'']"

definition ALLOWED_SKILL_DIRS :: "string set" where
  "ALLOWED_SKILL_DIRS = {''scripts'', ''references'', ''assets''}"

definition MAX_NAME_LENGTH :: nat where
  "MAX_NAME_LENGTH = 64"

definition MAX_DESCRIPTION_LENGTH :: nat where
  "MAX_DESCRIPTION_LENGTH = 1024"

definition MAX_SKILL_LINES :: nat where
  "MAX_SKILL_LINES = 500"

text \<open>
  The text Python prints for the set \<open>ALLOWED_SKILL_DIRS\<close>; the order of the elements
  of a set of strings changes from run to run, the order of the source is taken.
\<close>

definition ALLOWED_SKILL_DIRS_repr :: string where
  "ALLOWED_SKILL_DIRS_repr =
     ''{'' @ sq @ ''scripts'' @ sq @ '', '' @ sq @ ''references'' @ sq @ '', ''
       @ sq @ ''assets'' @ sq @ ''}''"

fun message_text :: "msg \<Rightarrow> string" where
  "message_text (MissingSkillMd d) = ''Missing required SKILL.md file in '' @ str_path d"
| "message_text (FailedToRead e) = ''Failed to read SKILL.md: '' @ e"
| "message_text MustStartWithFrontmatter = ''SKILL.md must start with YAML frontmatter (---)''"
| "message_text FrontmatterNotClosed =
     ''SKILL.md frontmatter not properly closed (missing closing ---)''"
| "message_text FrontmatterNotDict = ''SKILL.md frontmatter must be a YAML dictionary''"
| "message_text (InvalidYaml e) = ''Invalid YAML in frontmatter: '' @ e"
| "message_text (UnexpectedDirectory n) =
     ''Unexpected directory '' @ sq @ n @ sq @ ''. Only '' @ ALLOWED_SKILL_DIRS_repr
       @ '' are allowed.''"
| "message_text MissingName =
     ''Missing required field '' @ sq @ ''name'' @ sq @ '' in frontmatter''"
| "message_text MissingDescription =
     ''Missing required field '' @ sq @ ''description'' @ sq @ '' in frontmatter''"
| "message_text MetadataNotDict = sq @ ''metadata'' @ sq @ '' field must be a dictionary''"
| "message_text (NameNotString t) = ''Skill name must be a string, got '' @ t"
| "message_text (NameTooLong n) =
     ''Skill name exceeds maximum length of '' @ str_nat MAX_NAME_LENGTH
       @ '' characters ('' @ str_nat n @ '' chars)''"
| "message_text NameBadFormat =
     ''Skill name must contain only lowercase letters, numbers, and hyphens''"
| "message_text (NameReserved r) =
     ''Skill name cannot contain reserved word '' @ sq @ r @ sq"
| "message_text NameXml = ''Skill name cannot contain XML tags''"
| "message_text (NameDirMismatch n d) =
     ''Skill name '' @ sq @ n @ sq @ '' does not match directory name '' @ sq @ d @ sq"
| "message_text (NameGerund n) =
     ''Consider using gerund form (verb-ing) for skill name: '' @ sq @ n @ sq @ '' ''
       @ [CHR 0xE2, CHR 0x86, CHR 0x92] @ '' '' @ sq @ n @ ''ing'' @ sq @ '' or '' @ sq
       @ ''analyzing-'' @ n @ sq"
| "message_text (DescriptionNotString t) = ''Skill description must be a string, got '' @ t"
| "message_text DescriptionEmpty = ''Skill description cannot be empty''"
| "message_text (DescriptionTooLong n) =
     ''Skill description exceeds maximum length of '' @ str_nat MAX_DESCRIPTION_LENGTH
       @ '' characters ('' @ str_nat n @ '' chars)''"
| "message_text DescriptionXml = ''Skill description cannot contain XML tags''"
| "message_text DescriptionNoTrigger =
     ''Description should include clear '' @ sq @ ''when to use'' @ sq
       @ '' triggers (e.g., '' @ sq @ ''Use when...'' @ sq @ '', '' @ sq @ ''For...'' @ sq
       @ '')''"
| "message_text DescriptionFirstPerson =
     ''Description should use third person (avoid '' @ sq @ ''I'' @ sq @ '', '' @ sq
       @ ''we'' @ sq @ '', '' @ sq @ ''my'' @ sq @ '', '' @ sq @ ''our'' @ sq @ '')''"
| "message_text DescriptionFewSentences =
     ''Description should include both WHAT the skill does and WHEN to use it (at least 2 sentences recommended)''"
| "message_text (LicenseNotString t) =
     sq @ ''license'' @ sq @ '' field must be a string, got '' @ t"
| "message_text (CompatibilityNotString t) =
     sq @ ''compatibility'' @ sq @ '' field must be a string, got '' @ t"
| "message_text (TooManyLines n) =
     ''SKILL.md has '' @ str_nat n @ '' lines (recommended: ''
       @ [CHR 0xE2, CHR 0x89, CHR 0xA4] @ str_nat MAX_SKILL_LINES
       @ ''). Consider using references/ for detailed content.''"
| "message_text (BrokenReference l) = ''Broken internal reference: '' @ l"
| "message_text (SkillsDirNotFound d) = ''Skills directory not found: '' @ str_path d"
| "message_text (NotADirectory d) = ''Path is not a directory: '' @ str_path d"

text \<open>The class \<open>ValidationError\<close>.\<close>

record ValidationError =
  level :: string
  message :: msg
  file_path :: "Path option"

definition esc :: string where
  "esc = [CHR 0x1B]"

definition RED :: string where "RED = esc @ ''[91m''"
definition YELLOW :: string where "YELLOW = esc @ ''[93m''"
definition GREEN :: string where "GREEN = esc @ ''[92m''"
definition BLUE :: string where "BLUE = esc @ ''[94m''"
definition RESET :: string where "RESET = esc @ ''[0m''"
definition BOLD :: string where "BOLD = esc @ ''[1m''"

definition format_for_github :: "ValidationError \<Rightarrow> string" where
  "format_for_github e =
     (case file_path e of
        Some p \<Rightarrow> ''::'' @ level e @ '' file='' @ str_path p @ ''::'' @ message_text (message e)
      | None \<Rightarrow> ''::'' @ level e @ ''::'' @ message_text (message e))"

definition format_for_terminal :: "ValidationError \<Rightarrow> string" where
  "format_for_terminal e =
     (let prefix = (if level e = ''error'' then RED @ BOLD @ ''ERROR'' @ RESET
                    else YELLOW @ BOLD @ ''WARNING'' @ RESET);
          location = (case file_path e of
                        Some p \<Rightarrow> '' ('' @ BLUE @ str_path p @ RESET @ '')''
                      | None \<Rightarrow> [])
      in prefix @ location @ '': '' @ message_text (message e))"

subsection \<open>The class \<open>SkillValidator\<close>\<close>

text \<open>
  The object's fields; each method takes the object and returns it updated. No caller
  passes the optional \<open>file_path\<close> of \<open>error\<close> and \<open>warning\<close>, so the location is
  always \<open>skill_md\<close>.
\<close>

record SkillValidator =
  skill_dir :: Path
  skill_md :: Path
  errors :: "ValidationError list"
  warnings :: "ValidationError list"

definition init_SkillValidator :: "Path \<Rightarrow> SkillValidator" where
  "init_SkillValidator d =
     \<lparr>skill_dir = d, skill_md = d @ [''SKILL.md''], errors = [], warnings = []\<rparr>"

definition error :: "msg \<Rightarrow> SkillValidator \<Rightarrow> SkillValidator" where
  "error m v =
     v\<lparr>errors := errors v @ [\<lparr>level = ''error'', message = m, file_path = Some (skill_md v)\<rparr>]\<rparr>"

definition warning :: "msg \<Rightarrow> SkillValidator \<Rightarrow> SkillValidator" where
  "warning m v =
     v\<lparr>warnings := warnings v
          @ [\<lparr>level = ''warning'', message = m, file_path = Some (skill_md v)\<rparr>]\<rparr>"

text \<open>
  \<open>_parse_skill_md\<close>. \<open>safe_load\<close> is the YAML parser: the value, or the text of the
  \<open>YAMLError\<close> it raises.
\<close>

definition parse_skill_md ::
  "(string \<Rightarrow> string + yval) \<Rightarrow> node \<Rightarrow> SkillValidator
     \<Rightarrow> ((yval \<times> yval) list option \<times> string) \<times> SkillValidator" where
  "parse_skill_md safe_load fs v =
     (case read_text fs (skill_md v) of
        Inl e \<Rightarrow> ((None, []), error (FailedToRead e) v)
      | Inr content \<Rightarrow>
          if \<not> startswith content (''---'' @ [nl]) then
            ((None, content), error MustStartWithFrontmatter v)
          else
            (case find_str content ([nl] @ ''---'' @ [nl]) 4 of
               None \<Rightarrow> ((None, content), error FrontmatterNotClosed v)
             | Some end_delimiter \<Rightarrow>
                 let frontmatter_text = take (end_delimiter - 4) (drop 4 content);
                     body = drop (end_delimiter + 5) content
                 in (case safe_load frontmatter_text of
                       Inl e \<Rightarrow> ((None, body), error (InvalidYaml e) v)
                     | Inr (YDict frontmatter) \<Rightarrow> ((Some frontmatter, body), v)
                     | Inr _ \<Rightarrow> ((None, body), error FrontmatterNotDict v))))"

text \<open>\<open>_validate_directory_structure\<close>.\<close>

definition validate_directory_structure :: "node \<Rightarrow> SkillValidator \<Rightarrow> SkillValidator" where
  "validate_directory_structure fs v =
     fold (\<lambda>item w.
             if is_dir fs item \<and> path_name item \<notin> ALLOWED_SKILL_DIRS
             then error (UnexpectedDirectory (path_name item)) w else w)
          (iterdir fs (skill_dir v)) v"

text \<open>\<open>_validate_name\<close>.\<close>

definition validate_name :: "yval \<Rightarrow> SkillValidator \<Rightarrow> SkillValidator" where
  "validate_name name v =
     (case name of
        YStr s \<Rightarrow>
          let v1 = (if MAX_NAME_LENGTH < length s then error (NameTooLong (length s)) v else v);
              v2 = (if \<not> name_re_match s then error NameBadFormat v1 else v1);
              v3 = fold (\<lambda>reserved w.
                           if contains s reserved then error (NameReserved reserved) w else w)
                        RESERVED_WORDS v2;
              v4 = (if contains s ''<'' \<or> contains s ''>'' then error NameXml v3 else v3);
              v5 = (if s \<noteq> path_name (skill_dir v4)
                    then error (NameDirMismatch s (path_name (skill_dir v4))) v4 else v4)
          in if \<not> endswith s ''ing''
                \<and> \<not> list_ex (\<lambda>prefix. startswith s prefix)
                     [''analyzing'', ''diagnosing'', ''migrating'', ''optimizing'',
                      ''configuring'', ''implementing'', ''tuning'', ''validating'',
                      ''planning'']
             then warning (NameGerund s) v5 else v5
      | _ \<Rightarrow> error (NameNotString (type_name name)) v)"

text \<open>\<open>_validate_description\<close>.\<close>

definition validate_description :: "yval \<Rightarrow> SkillValidator \<Rightarrow> SkillValidator" where
  "validate_description description v =
     (case description of
        YStr s \<Rightarrow>
          if strip s = [] then error DescriptionEmpty v
          else
            let v1 = (if MAX_DESCRIPTION_LENGTH < length s
                      then error (DescriptionTooLong (length s)) v else v);
                v2 = (if contains s ''<'' \<or> contains s ''>''
                      then error DescriptionXml v1 else v1);
                trigger_keywords = [''use when'', ''when'', ''if you'', ''for'', ''helps'',
                                    ''guides''];
                has_trigger = list_ex (\<lambda>keyword. contains (lower s) keyword) trigger_keywords;
                v3 = (if \<not> has_trigger then warning DescriptionNoTrigger v2 else v2);
                first_person_words = [''i '', ''we '', ''my '', ''our ''];
                v4 = (if list_ex (\<lambda>word. contains (lower s) word) first_person_words
                      then warning DescriptionFirstPerson v3 else v3)
            in if length (split_str CHR ''.'' s) < 2
               then warning DescriptionFewSentences v4 else v4
      | _ \<Rightarrow> error (DescriptionNotString (type_name description)) v)"

text \<open>\<open>_validate_license\<close> and \<open>_validate_compatibility\<close>.\<close>

definition validate_license :: "yval \<Rightarrow> SkillValidator \<Rightarrow> SkillValidator" where
  "validate_license license_value v =
     (case license_value of
        YStr s \<Rightarrow> v
      | _ \<Rightarrow> error (LicenseNotString (type_name license_value)) v)"

definition validate_compatibility :: "yval \<Rightarrow> SkillValidator \<Rightarrow> SkillValidator" where
  "validate_compatibility compatibility v =
     (case compatibility of
        YStr s \<Rightarrow> v
      | _ \<Rightarrow> error (CompatibilityNotString (type_name compatibility)) v)"

text \<open>
  \<open>_validate_frontmatter\<close>. The frontmatter is a dictionary: \<open>k in frontmatter\<close> and
  \<open>frontmatter[k]\<close> are \<open>map_of\<close>.
\<close>

definition validate_frontmatter :: "(yval \<times> yval) list \<Rightarrow> SkillValidator \<Rightarrow> SkillValidator" where
  "validate_frontmatter frontmatter v =
     (case map_of frontmatter (YStr ''name'') of
        None \<Rightarrow> error MissingName v
      | Some name \<Rightarrow>
          (case map_of frontmatter (YStr ''description'') of
             None \<Rightarrow> error MissingDescription v
           | Some description \<Rightarrow>
               let v1 = validate_name name v;
                   v2 = validate_description description v1;
                   v3 = (case map_of frontmatter (YStr ''license'') of
                           Some l \<Rightarrow> validate_license l v2 | None \<Rightarrow> v2);
                   v4 = (case map_of frontmatter (YStr ''compatibility'') of
                           Some c \<Rightarrow> validate_compatibility c v3 | None \<Rightarrow> v3)
               in (case map_of frontmatter (YStr ''metadata'') of
                     Some (YDict d) \<Rightarrow> v4
                   | Some _ \<Rightarrow> error MetadataNotDict v4
                   | None \<Rightarrow> v4)))"

text \<open>
  \<open>_validate_content\<close>. \<open>link_exists d l\<close> is what the operating system answers to
  \<open>(d / l).exists()\<close> for the text \<open>l\<close> of a link target.
\<close>

definition validate_content ::
  "(Path \<Rightarrow> string \<Rightarrow> bool) \<Rightarrow> string \<Rightarrow> SkillValidator \<Rightarrow> SkillValidator" where
  "validate_content link_exists body v =
     (let lines = split_str nl body;
          v1 = (if MAX_SKILL_LINES < length lines
                then warning (TooManyLines (length lines)) v else v)
      in fold (\<lambda>line w.
                 fold (\<lambda>(link_text, link_path) u.
                         if \<not> list_ex (\<lambda>p. startswith link_path p)
                                [''http://'', ''https://'', ''#'', ''mailto:'']
                         then (if \<not> link_exists (skill_dir u) link_path
                               then warning (BrokenReference link_path) u else u)
                         else u)
                      (findall line) w)
              lines v1)"

text \<open>\<open>SkillValidator.validate\<close>: the errors and the warnings.\<close>

definition SkillValidator_validate ::
  "(string \<Rightarrow> string + yval) \<Rightarrow> (Path \<Rightarrow> string \<Rightarrow> bool) \<Rightarrow> node \<Rightarrow> Path
     \<Rightarrow> ValidationError list \<times> ValidationError list" where
  "SkillValidator_validate safe_load link_exists fs d =
     (let v = init_SkillValidator d
      in if \<not> exists fs (skill_md v) then
           (let v' = error (MissingSkillMd (skill_dir v)) v in (errors v', warnings v'))
         else
           (case parse_skill_md safe_load fs v of
              ((None, body), v1) \<Rightarrow> (errors v1, warnings v1)
            | ((Some frontmatter, body), v1) \<Rightarrow>
                let v2 = validate_directory_structure fs v1;
                    v3 = validate_frontmatter frontmatter v2;
                    v4 = validate_content link_exists body v3
                in (errors v4, warnings v4)))"

subsection \<open>The class \<open>RepositoryValidator\<close>\<close>

text \<open>\<open>_find_skill_directories\<close>; \<open>skill_dirs.append\<close> adds at the end.\<close>

definition find_skill_directories :: "node \<Rightarrow> Path \<Rightarrow> Path list" where
  "find_skill_directories fs skills_dir =
     (if exists fs (skills_dir @ [''SKILL.md'']) then [skills_dir]
      else
        fold (\<lambda>domain_dir skill_dirs.
                if \<not> is_dir fs domain_dir then skill_dirs
                else if startswith (path_name domain_dir) ''.'' then skill_dirs
                else
                  fold (\<lambda>potential_skill_dir dirs.
                          if \<not> is_dir fs potential_skill_dir then dirs
                          else if startswith (path_name potential_skill_dir) ''.'' then dirs
                          else if exists fs (potential_skill_dir @ [''SKILL.md''])
                          then dirs @ [potential_skill_dir] else dirs)
                       (iterdir fs domain_dir) skill_dirs)
             (iterdir fs skills_dir) [])"

text \<open>\<open>RepositoryValidator.validate\<close>.\<close>

definition RepositoryValidator_validate ::
  "(string \<Rightarrow> string + yval) \<Rightarrow> (Path \<Rightarrow> string \<Rightarrow> bool) \<Rightarrow> node \<Rightarrow> Path
     \<Rightarrow> ValidationError list \<times> ValidationError list" where
  "RepositoryValidator_validate safe_load link_exists fs skills_dir =
     (if \<not> exists fs skills_dir then
        ([\<lparr>level = ''error'', message = SkillsDirNotFound skills_dir, file_path = None\<rparr>], [])
      else if \<not> is_dir fs skills_dir then
        ([\<lparr>level = ''error'', message = NotADirectory skills_dir, file_path = None\<rparr>], [])
      else
        let skill_dirs = find_skill_directories fs skills_dir
        in if skill_dirs = [] then ([], [])
           else
             fold (\<lambda>d (es, ws).
                     let (errors', warnings') = SkillValidator_validate safe_load link_exists fs d
                     in (es @ errors', ws @ warnings'))
                  skill_dirs ([], []))"

subsection \<open>The command line\<close>

text \<open>
  \<open>args\<close> is what \<open>parser.parse_args()\<close> returns, \<open>argv\<close> is \<open>sys.argv\<close>. \<open>main\<close>
  returns the texts it prints, one per call of \<open>print\<close>, and the exit code.
\<close>

record args =
  path :: Path
  strict :: bool
  github :: bool

definition main ::
  "(string \<Rightarrow> string + yval) \<Rightarrow> (Path \<Rightarrow> string \<Rightarrow> bool) \<Rightarrow> node \<Rightarrow> string list \<Rightarrow> args
     \<Rightarrow> string list \<times> int" where
  "main safe_load link_exists fs argv a =
     (let (errors', warnings') = RepositoryValidator_validate safe_load link_exists fs (path a);
          is_github_actions = (github a \<or> ''GITHUB_ACTIONS'' \<in> set argv);
          out1 = (if errors' \<noteq> [] then
                    ([nl] @ RED @ BOLD @ ''Found '' @ str_nat (length errors')
                       @ '' error(s):'' @ RESET @ [nl])
                    # map (\<lambda>e. if is_github_actions then format_for_github e
                                 else format_for_terminal e) errors'
                  else []);
          out2 = (if warnings' \<noteq> [] then
                    ([nl] @ YELLOW @ BOLD @ ''Found '' @ str_nat (length warnings')
                       @ '' warning(s):'' @ RESET @ [nl])
                    # map (\<lambda>w. if is_github_actions then format_for_github w
                                 else format_for_terminal w) warnings'
                  else [])
      in if errors' = [] \<and> warnings' = [] then
           (out1 @ out2
              @ [[nl] @ GREEN @ BOLD @ [CHR 0xE2, CHR 0x9C, CHR 0x93]
                   @ '' All validations passed!'' @ RESET @ [nl]], 0)
         else if errors' \<noteq> [] then (out1 @ out2, 1)
         else if strict a \<and> warnings' \<noteq> [] then (out1 @ out2, 1)
         else (out1 @ out2, 0))"

subsection \<open>Reading the diagnostics\<close>

text \<open>The messages among the errors and among the warnings of a validator.\<close>

definition error_messages :: "SkillValidator \<Rightarrow> msg set" where
  "error_messages v = message ` set (errors v)"

definition warning_messages :: "SkillValidator \<Rightarrow> msg set" where
  "warning_messages v = message ` set (warnings v)"

text \<open>An error of the check of the directory structure.\<close>

definition is_unexpected_directory :: "ValidationError \<Rightarrow> bool" where
  "is_unexpected_directory e =
     (case message e of UnexpectedDirectory n \<Rightarrow> True | _ \<Rightarrow> False)"

text \<open>
  \<open>SKILL.md\<close> exists and \<open>_parse_skill_md\<close> returns a frontmatter that is not \<open>None\<close>:
  the condition under which \<open>validate\<close> goes on to its checks.
\<close>

definition frontmatter_parsed :: "(string \<Rightarrow> string + yval) \<Rightarrow> node \<Rightarrow> Path \<Rightarrow> bool" where
  "frontmatter_parsed safe_load fs d =
     (exists fs (d @ [''SKILL.md''])
      \<and> fst (fst (parse_skill_md safe_load fs (init_SkillValidator d))) \<noteq> None)"

subsection \<open>An example repository\<close>

text \<open>
  The skill \<open>foo-bar\<close>: its frontmatter as text and as the YAML parser returns it, a body
  of ten lines without links, and the file. \<open>example_safe_load\<close> is the YAML parser on
  this one text.
\<close>

definition foo_bar_frontmatter_text :: string where
  "foo_bar_frontmatter_text =
     ''name: foo-bar'' @ [nl] @ ''description: '' @ dq @ ''Use when the user needs X.'' @ dq"

definition foo_bar_frontmatter :: "(yval \<times> yval) list" where
  "foo_bar_frontmatter =
     [(YStr ''name'', YStr ''foo-bar''),
      (YStr ''description'', YStr ''Use when the user needs X.'')]"

definition foo_bar_body :: string where
  "foo_bar_body =
     ''# Foo bar'' @ [nl] @ [nl] @ ''Does X.'' @ [nl] @ [nl] @ ''## Steps'' @ [nl] @ [nl]
       @ ''1. one'' @ [nl] @ ''2. two'' @ [nl] @ ''3. three'' @ [nl] @ ''Done.''"

definition foo_bar_skill_md :: string where
  "foo_bar_skill_md =
     ''---'' @ [nl] @ foo_bar_frontmatter_text @ [nl] @ ''---'' @ [nl] @ foo_bar_body"

definition example_safe_load :: "string \<Rightarrow> string + yval" where
  "example_safe_load t =
     (if t = foo_bar_frontmatter_text then Inr (YDict foo_bar_frontmatter)
      else Inl ''could not parse'')"

text \<open>
  A repository \<open>skills\<close> with one domain. Next to \<open>foo-bar\<close> it holds a skill with a
  directory that is not allowed, a skill whose file has no frontmatter, a hidden
  directory, a file, and a \<open>SKILL.md\<close> one level too deep.
\<close>

definition example_fs :: node where
  "example_fs =
     Dir [(''skills'',
           Dir [(''domain'',
                 Dir [(''foo-bar'', Dir [(''SKILL.md'', File foo_bar_skill_md)]),
                      (''with-extras'',
                       Dir [(''SKILL.md'', File foo_bar_skill_md), (''extras'', Dir []),
                            (''scripts'', Dir []), (''notes.txt'', File [])]),
                      (''no-frontmatter'',
                       Dir [(''SKILL.md'', File ''name: x''), (''extras'', Dir [])]),
                      (''.drafts'', Dir [(''SKILL.md'', File [])]),
                      (''nested'', Dir [(''deeper'', Dir [(''SKILL.md'', File [])])]),
                      (''README.md'', File [])]),
                (''.git'', Dir [(''hooks'', Dir [(''SKILL.md'', File [])])])])]"

section \<open>Properties\<close>

subsection \<open>Field access after \<open>error\<close> and \<open>warning\<close>\<close>

lemma error_fields [simp]:
  "errors (error m v)
     = errors v @ [\<lparr>level = ''error'', message = m, file_path = Some (skill_md v)\<rparr>]"
  "warnings (error m v) = warnings v"
  "skill_dir (error m v) = skill_dir v"
  "skill_md (error m v) = skill_md v"
  by (simp_all add: error_def)

lemma warning_fields [simp]:
  "warnings (warning m v)
     = warnings v @ [\<lparr>level = ''warning'', message = m, file_path = Some (skill_md v)\<rparr>]"
  "errors (warning m v) = errors v"
  "skill_dir (warning m v) = skill_dir v"
  "skill_md (warning m v) = skill_md v"
  by (simp_all add: warning_def)

lemma init_fields [simp]:
  "errors (init_SkillValidator d) = []"
  "warnings (init_SkillValidator d) = []"
  "skill_dir (init_SkillValidator d) = d"
  "skill_md (init_SkillValidator d) = d @ [''SKILL.md'']"
  by (simp_all add: init_SkillValidator_def)

lemma read_text_exists: "read_text fs p = Inr c \<Longrightarrow> exists fs p"
  by (auto simp: read_text_def exists_def split: option.splits node.splits)

subsection \<open>The exit code\<close>

text \<open>
  Claim C7. With \<open>errs\<close> and \<open>warns\<close> the errors and warnings of the run, the exit code
  is 0 exactly when there is no error and there is no warning or \<open>--strict\<close> is not
  set, and it is 1 exactly when there is an error, or \<open>--strict\<close> is set and there is
  a warning.
\<close>

theorem main_exit_code:
  assumes "RepositoryValidator_validate safe_load link_exists fs (path a) = (errs, warns)"
  shows "(snd (main safe_load link_exists fs argv a) = 0
            \<longleftrightarrow> errs = [] \<and> (warns = [] \<or> \<not> strict a))
       \<and> (snd (main safe_load link_exists fs argv a) = 1
            \<longleftrightarrow> errs \<noteq> [] \<or> (strict a \<and> warns \<noteq> []))"
  using assms by (simp add: main_def Let_def)

theorem main_exit_code_witness:
  "RepositoryValidator_validate (\<lambda>t. Inl []) (\<lambda>d l. False) (Dir []) [''skills'']
     = ([\<lparr>level = ''error'', message = SkillsDirNotFound [''skills''], file_path = None\<rparr>], [])
   \<and> snd (main (\<lambda>t. Inl []) (\<lambda>d l. False) (Dir []) [''validate-spec.py'', ''skills'']
              \<lparr>path = [''skills''], strict = False, github = False\<rparr>) = 1"
proof -
  have r: "RepositoryValidator_validate (\<lambda>t. Inl []) (\<lambda>d l. False) (Dir [])
             (path \<lparr>path = [''skills''], strict = False, github = False\<rparr>)
           = ([\<lparr>level = ''error'', message = SkillsDirNotFound [''skills''],
                file_path = None\<rparr>], [])"
    by (simp add: RepositoryValidator_validate_def exists_def)
  from main_exit_code [OF r] r show ?thesis by simp
qed

subsection \<open>The frontmatter delimiters\<close>

text \<open>
  Claim C4. When the text of \<open>SKILL.md\<close> does not begin with the opening delimiter
  line, validating the skill gives exactly one error, the one for the missing
  frontmatter, and no warning: no check of a field has run.
\<close>

theorem missing_opening_delimiter_one_error:
  assumes "read_text fs (d @ [''SKILL.md'']) = Inr content"
    and "\<not> startswith content (''---'' @ [nl])"
  shows "SkillValidator_validate safe_load link_exists fs d
           = ([\<lparr>level = ''error'', message = MustStartWithFrontmatter,
                file_path = Some (d @ [''SKILL.md''])\<rparr>], [])"
  using assms read_text_exists [OF assms(1)]
  by (simp add: SkillValidator_validate_def parse_skill_md_def Let_def)

theorem missing_opening_delimiter_one_error_witness:
  "read_text (Dir [(''s'', Dir [(''SKILL.md'', File ''name: s'')])]) ([''s''] @ [''SKILL.md''])
     = Inr ''name: s''
   \<and> \<not> startswith ''name: s'' (''---'' @ [nl])
   \<and> SkillValidator_validate (\<lambda>t. Inl []) (\<lambda>d l. False)
        (Dir [(''s'', Dir [(''SKILL.md'', File ''name: s'')])]) [''s'']
      = ([\<lparr>level = ''error'', message = MustStartWithFrontmatter,
           file_path = Some ([''s''] @ [''SKILL.md''])\<rparr>], [])"
proof -
  have r: "read_text (Dir [(''s'', Dir [(''SKILL.md'', File ''name: s'')])])
             ([''s''] @ [''SKILL.md'']) = Inr ''name: s''"
    by (simp add: read_text_def)
  have n: "\<not> startswith ''name: s'' (''---'' @ [nl])"
    by simp
  from missing_opening_delimiter_one_error [OF r n] r n show ?thesis by blast
qed

text \<open>
  Claim C9. A file that begins with the opening delimiter line and whose last line is
  \<open>---\<close> with no newline after it: the search for the closing delimiter asks for a
  newline on both sides of the three hyphens, finds none, and the skill gets the error
  for a frontmatter that is not closed.
\<close>

theorem closing_delimiter_at_end_of_file:
  "SkillValidator_validate safe_load link_exists
     (Dir [(''s'', Dir [(''SKILL.md'', File (''---'' @ [nl] @ ''name: s'' @ [nl] @ ''---''))])])
     [''s'']
   = ([\<lparr>level = ''error'', message = FrontmatterNotClosed,
        file_path = Some [''s'', ''SKILL.md'']\<rparr>], [])"
  by (simp add: SkillValidator_validate_def parse_skill_md_def Let_def exists_def
      read_text_def find_str_def nl_def)

subsection \<open>The checks of a name and of a description\<close>

lemma if_error [simp]:
  "errors (if c then error m v else v)
     = errors v
       @ (if c then [\<lparr>level = ''error'', message = m, file_path = Some (skill_md v)\<rparr>]
          else [])"
  "warnings (if c then error m v else v) = warnings v"
  "skill_dir (if c then error m v else v) = skill_dir v"
  "skill_md (if c then error m v else v) = skill_md v"
  by simp_all

lemma if_warning [simp]:
  "warnings (if c then warning m v else v)
     = warnings v
       @ (if c then [\<lparr>level = ''warning'', message = m, file_path = Some (skill_md v)\<rparr>]
          else [])"
  "errors (if c then warning m v else v) = errors v"
  "skill_dir (if c then warning m v else v) = skill_dir v"
  "skill_md (if c then warning m v else v) = skill_md v"
  by simp_all

text \<open>The errors and warnings a name adds, one term per rule, in the order of the code.\<close>

lemma validate_name_errors:
  "errors (validate_name (YStr s) v)
     = errors v
       @ (if 64 < length s
          then [\<lparr>level = ''error'', message = NameTooLong (length s),
                 file_path = Some (skill_md v)\<rparr>] else [])
       @ (if \<not> name_re_match s
          then [\<lparr>level = ''error'', message = NameBadFormat,
                 file_path = Some (skill_md v)\<rparr>] else [])
       @ (if contains s ''anthropic''
          then [\<lparr>level = ''error'', message = NameReserved ''anthropic'',
                 file_path = Some (skill_md v)\<rparr>] else [])
       @ (if contains s ''claude''
          then [\<lparr>level = ''error'', message = NameReserved ''claude'',
                 file_path = Some (skill_md v)\<rparr>] else [])
       @ (if contains s ''<'' \<or> contains s ''>''
          then [\<lparr>level = ''error'', message = NameXml,
                 file_path = Some (skill_md v)\<rparr>] else [])
       @ (if s \<noteq> path_name (skill_dir v)
          then [\<lparr>level = ''error'', message = NameDirMismatch s (path_name (skill_dir v)),
                 file_path = Some (skill_md v)\<rparr>] else [])"
  by (simp add: validate_name_def Let_def MAX_NAME_LENGTH_def RESERVED_WORDS_def
      split del: if_split cong: if_cong)

lemma validate_name_warnings:
  "warnings (validate_name (YStr s) v)
     = warnings v
       @ (if \<not> endswith s ''ing''
             \<and> \<not> list_ex (\<lambda>prefix. startswith s prefix)
                  [''analyzing'', ''diagnosing'', ''migrating'', ''optimizing'',
                   ''configuring'', ''implementing'', ''tuning'', ''validating'',
                   ''planning'']
          then [\<lparr>level = ''warning'', message = NameGerund s,
                 file_path = Some (skill_md v)\<rparr>] else [])"
  by (simp add: validate_name_def Let_def MAX_NAME_LENGTH_def RESERVED_WORDS_def
      split del: if_split cong: if_cong)

lemma name_rules:
  fixes s d
  defines "v \<equiv> validate_name (YStr s) (init_SkillValidator d)"
  shows "NameTooLong (length s) \<in> error_messages v \<longleftrightarrow> 64 < length s"
    and "NameBadFormat \<in> error_messages v \<longleftrightarrow> \<not> name_re_match s"
    and "NameReserved ''anthropic'' \<in> error_messages v \<longleftrightarrow> contains s ''anthropic''"
    and "NameReserved ''claude'' \<in> error_messages v \<longleftrightarrow> contains s ''claude''"
    and "NameXml \<in> error_messages v \<longleftrightarrow> contains s ''<'' \<or> contains s ''>''"
    and "NameDirMismatch s (path_name d) \<in> error_messages v \<longleftrightarrow> s \<noteq> path_name d"
    and "NameGerund s \<in> warning_messages v
           \<longleftrightarrow> \<not> endswith s ''ing''
               \<and> \<not> list_ex (\<lambda>prefix. startswith s prefix)
                    [''analyzing'', ''diagnosing'', ''migrating'', ''optimizing'',
                     ''configuring'', ''implementing'', ''tuning'', ''validating'',
                     ''planning'']"
  unfolding v_def error_messages_def warning_messages_def
    validate_name_errors validate_name_warnings
  by auto

lemma validate_description_errors:
  assumes "strip s \<noteq> []"
  shows "errors (validate_description (YStr s) v)
     = errors v
       @ (if 1024 < length s
          then [\<lparr>level = ''error'', message = DescriptionTooLong (length s),
                 file_path = Some (skill_md v)\<rparr>] else [])
       @ (if contains s ''<'' \<or> contains s ''>''
          then [\<lparr>level = ''error'', message = DescriptionXml,
                 file_path = Some (skill_md v)\<rparr>] else [])"
  using assms
  by (simp add: validate_description_def Let_def MAX_DESCRIPTION_LENGTH_def
      split del: if_split cong: if_cong)

lemma validate_description_warnings:
  assumes "strip s \<noteq> []"
  shows "warnings (validate_description (YStr s) v)
     = warnings v
       @ (if \<not> list_ex (\<lambda>keyword. contains (lower s) keyword)
                [''use when'', ''when'', ''if you'', ''for'', ''helps'', ''guides'']
          then [\<lparr>level = ''warning'', message = DescriptionNoTrigger,
                 file_path = Some (skill_md v)\<rparr>] else [])
       @ (if list_ex (\<lambda>word. contains (lower s) word) [''i '', ''we '', ''my '', ''our '']
          then [\<lparr>level = ''warning'', message = DescriptionFirstPerson,
                 file_path = Some (skill_md v)\<rparr>] else [])
       @ (if length (split_str CHR ''.'' s) < 2
          then [\<lparr>level = ''warning'', message = DescriptionFewSentences,
                 file_path = Some (skill_md v)\<rparr>] else [])"
  using assms
  by (simp add: validate_description_def Let_def MAX_DESCRIPTION_LENGTH_def
      split del: if_split cong: if_cong)

lemma validate_description_blank:
  assumes "strip s = []"
  shows "validate_description (YStr s) v = error DescriptionEmpty v"
  using assms by (simp add: validate_description_def)

lemma description_rules:
  fixes s d
  defines "v \<equiv> validate_description (YStr s) (init_SkillValidator d)"
  assumes "strip s \<noteq> []"
  shows "DescriptionTooLong (length s) \<in> error_messages v \<longleftrightarrow> 1024 < length s"
    and "DescriptionXml \<in> error_messages v \<longleftrightarrow> contains s ''<'' \<or> contains s ''>''"
    and "DescriptionNoTrigger \<in> warning_messages v
           \<longleftrightarrow> \<not> list_ex (\<lambda>keyword. contains (lower s) keyword)
                    [''use when'', ''when'', ''if you'', ''for'', ''helps'', ''guides'']"
    and "DescriptionFirstPerson \<in> warning_messages v
           \<longleftrightarrow> list_ex (\<lambda>word. contains (lower s) word) [''i '', ''we '', ''my '', ''our '']"
    and "DescriptionFewSentences \<in> warning_messages v
           \<longleftrightarrow> length (split_str CHR ''.'' s) < 2"
  unfolding v_def error_messages_def warning_messages_def
    validate_description_errors [OF assms(2)] validate_description_warnings [OF assms(2)]
  by auto

lemma description_blank_messages:
  assumes "strip s = []"
  shows "error_messages (validate_description (YStr s) (init_SkillValidator d))
           = {DescriptionEmpty}"
    and "warning_messages (validate_description (YStr s) (init_SkillValidator d)) = {}"
  using assms
  by (simp_all add: validate_description_blank error_messages_def warning_messages_def)

text \<open>The messages a field adds do not depend on what was found before it.\<close>

lemma error_messages_simps [simp]:
  "error_messages (error m v) = insert m (error_messages v)"
  "error_messages (warning m v) = error_messages v"
  "error_messages (init_SkillValidator d) = {}"
  "warning_messages (warning m v) = insert m (warning_messages v)"
  "warning_messages (error m v) = warning_messages v"
  "warning_messages (init_SkillValidator d) = {}"
  by (simp_all add: error_messages_def warning_messages_def)

lemma validate_name_skill_dir [simp]:
  "skill_dir (validate_name n v) = skill_dir v"
  by (cases n) (simp_all add: validate_name_def Let_def RESERVED_WORDS_def
      split del: if_split cong: if_cong)

lemma validate_description_skill_dir [simp]:
  "skill_dir (validate_description n v) = skill_dir v"
proof (cases n)
  case (YStr s)
  then show ?thesis
    by (cases "strip s = []")
       (simp_all add: validate_description_def Let_def split del: if_split cong: if_cong)
qed (simp_all add: validate_description_def)

lemma validate_license_skill_dir [simp]:
  "skill_dir (validate_license n v) = skill_dir v"
  by (cases n) (simp_all add: validate_license_def)

lemma validate_compatibility_skill_dir [simp]:
  "skill_dir (validate_compatibility n v) = skill_dir v"
  by (cases n) (simp_all add: validate_compatibility_def)

lemma validate_name_messages:
  "error_messages (validate_name n v)
     = error_messages v \<union> error_messages (validate_name n (init_SkillValidator (skill_dir v)))"
  "warning_messages (validate_name n v)
     = warning_messages v \<union> warning_messages (validate_name n (init_SkillValidator (skill_dir v)))"
proof -
  show "error_messages (validate_name n v)
     = error_messages v \<union> error_messages (validate_name n (init_SkillValidator (skill_dir v)))"
  proof (cases n)
    case (YStr s)
    then show ?thesis
      unfolding error_messages_def validate_name_errors YStr by auto
  qed (simp_all add: validate_name_def)
  show "warning_messages (validate_name n v)
     = warning_messages v \<union> warning_messages (validate_name n (init_SkillValidator (skill_dir v)))"
  proof (cases n)
    case (YStr s)
    then show ?thesis
      unfolding warning_messages_def validate_name_warnings YStr by auto
  qed (simp_all add: validate_name_def)
qed

lemma validate_description_messages:
  "error_messages (validate_description n v)
     = error_messages v \<union> error_messages (validate_description n (init_SkillValidator d))"
  "warning_messages (validate_description n v)
     = warning_messages v \<union> warning_messages (validate_description n (init_SkillValidator d))"
proof -
  show "error_messages (validate_description n v)
     = error_messages v \<union> error_messages (validate_description n (init_SkillValidator d))"
  proof (cases n)
    case (YStr s)
    show ?thesis
    proof (cases "strip s = []")
      case True
      then show ?thesis by (simp add: YStr validate_description_blank)
    next
      case False
      then show ?thesis
        unfolding error_messages_def YStr validate_description_errors [OF False] by auto
    qed
  qed (simp_all add: validate_description_def)
  show "warning_messages (validate_description n v)
     = warning_messages v \<union> warning_messages (validate_description n (init_SkillValidator d))"
  proof (cases n)
    case (YStr s)
    show ?thesis
    proof (cases "strip s = []")
      case True
      then show ?thesis by (simp add: YStr validate_description_blank)
    next
      case False
      then show ?thesis
        unfolding warning_messages_def YStr validate_description_warnings [OF False] by auto
    qed
  qed (simp_all add: validate_description_def)
qed

lemma validate_license_messages:
  "error_messages (validate_license n v)
     = error_messages v \<union> error_messages (validate_license n (init_SkillValidator d))"
  "warning_messages (validate_license n v) = warning_messages v"
  by (cases n; simp add: validate_license_def)+

lemma validate_compatibility_messages:
  "error_messages (validate_compatibility n v)
     = error_messages v \<union> error_messages (validate_compatibility n (init_SkillValidator d))"
  "warning_messages (validate_compatibility n v) = warning_messages v"
  by (cases n; simp add: validate_compatibility_def)+

lemma validate_frontmatter_messages:
  assumes "map_of fm (YStr ''name'') = Some nv"
    and "map_of fm (YStr ''description'') = Some dv"
  shows "error_messages (validate_frontmatter fm (init_SkillValidator d))
     = error_messages (validate_name nv (init_SkillValidator d))
       \<union> error_messages (validate_description dv (init_SkillValidator d))
       \<union> (case map_of fm (YStr ''license'') of
            Some l \<Rightarrow> error_messages (validate_license l (init_SkillValidator d))
          | None \<Rightarrow> {})
       \<union> (case map_of fm (YStr ''compatibility'') of
            Some c \<Rightarrow> error_messages (validate_compatibility c (init_SkillValidator d))
          | None \<Rightarrow> {})
       \<union> (case map_of fm (YStr ''metadata'') of
            Some (YDict m) \<Rightarrow> {}
          | Some _ \<Rightarrow> {MetadataNotDict}
          | None \<Rightarrow> {})"
    and "warning_messages (validate_frontmatter fm (init_SkillValidator d))
     = warning_messages (validate_name nv (init_SkillValidator d))
       \<union> warning_messages (validate_description dv (init_SkillValidator d))"
proof -
  define v1 where "v1 = validate_name nv (init_SkillValidator d)"
  define v2 where "v2 = validate_description dv v1"
  define v3 where "v3 = (case map_of fm (YStr ''license'') of
                           Some l \<Rightarrow> validate_license l v2 | None \<Rightarrow> v2)"
  define v4 where "v4 = (case map_of fm (YStr ''compatibility'') of
                           Some c \<Rightarrow> validate_compatibility c v3 | None \<Rightarrow> v3)"
  define v5 where "v5 = (case map_of fm (YStr ''metadata'') of
                           Some (YDict m) \<Rightarrow> v4
                         | Some _ \<Rightarrow> error MetadataNotDict v4
                         | None \<Rightarrow> v4)"
  have f: "validate_frontmatter fm (init_SkillValidator d) = v5"
    unfolding validate_frontmatter_def Let_def v5_def v4_def v3_def v2_def v1_def assms
    by (simp only: option.case)
  have e2: "error_messages v2
              = error_messages v1 \<union> error_messages (validate_description dv (init_SkillValidator d))"
    unfolding v2_def by (rule validate_description_messages)
  have e3: "error_messages v3
              = error_messages v2
                \<union> (case map_of fm (YStr ''license'') of
                     Some l \<Rightarrow> error_messages (validate_license l (init_SkillValidator d))
                   | None \<Rightarrow> {})"
    unfolding v3_def
    by (cases "map_of fm (YStr ''license'')")
       (simp_all add: validate_license_messages(1) [of _ v2 d])
  have e4: "error_messages v4
              = error_messages v3
                \<union> (case map_of fm (YStr ''compatibility'') of
                     Some c \<Rightarrow> error_messages (validate_compatibility c (init_SkillValidator d))
                   | None \<Rightarrow> {})"
    unfolding v4_def
    by (cases "map_of fm (YStr ''compatibility'')")
       (simp_all add: validate_compatibility_messages(1) [of _ v3 d])
  have e5: "error_messages v5
              = error_messages v4
                \<union> (case map_of fm (YStr ''metadata'') of
                     Some (YDict m) \<Rightarrow> {}
                   | Some _ \<Rightarrow> {MetadataNotDict}
                   | None \<Rightarrow> {})"
    unfolding v5_def by (simp split: option.splits yval.splits)
  show "error_messages (validate_frontmatter fm (init_SkillValidator d))
     = error_messages (validate_name nv (init_SkillValidator d))
       \<union> error_messages (validate_description dv (init_SkillValidator d))
       \<union> (case map_of fm (YStr ''license'') of
            Some l \<Rightarrow> error_messages (validate_license l (init_SkillValidator d))
          | None \<Rightarrow> {})
       \<union> (case map_of fm (YStr ''compatibility'') of
            Some c \<Rightarrow> error_messages (validate_compatibility c (init_SkillValidator d))
          | None \<Rightarrow> {})
       \<union> (case map_of fm (YStr ''metadata'') of
            Some (YDict m) \<Rightarrow> {}
          | Some _ \<Rightarrow> {MetadataNotDict}
          | None \<Rightarrow> {})"
    unfolding f e5 e4 e3 e2 v1_def ..
  have w2: "warning_messages v2
              = warning_messages v1
                \<union> warning_messages (validate_description dv (init_SkillValidator d))"
    unfolding v2_def by (rule validate_description_messages)
  have w3: "warning_messages v3 = warning_messages v2"
    unfolding v3_def
    by (cases "map_of fm (YStr ''license'')") (simp_all add: validate_license_messages(2))
  have w4: "warning_messages v4 = warning_messages v3"
    unfolding v4_def
    by (cases "map_of fm (YStr ''compatibility'')")
       (simp_all add: validate_compatibility_messages(2))
  have w5: "warning_messages v5 = warning_messages v4"
    unfolding v5_def by (simp split: option.splits yval.splits)
  show "warning_messages (validate_frontmatter fm (init_SkillValidator d))
     = warning_messages (validate_name nv (init_SkillValidator d))
       \<union> warning_messages (validate_description dv (init_SkillValidator d))"
    unfolding f w5 w4 w3 w2 v1_def ..
qed

text \<open>
  Claim C3, as the code has it. For a name \<open>s\<close> that is a string, each of the rules of a
  name gives its diagnostic exactly when the name breaks that rule, whatever the other
  rules say. For a description \<open>t\<close> that is a string and is not empty once trimmed, the
  same holds of the length, the XML, the trigger-phrase, the first-person and the
  sentence-count rules. A description \<open>u\<close> that is empty once trimmed gets the one error
  for an empty description and nothing else. With both mandatory fields present, the
  messages of the frontmatter check are those of the name, of the description, of the
  license, of the compatibility and of the metadata, each as checked alone.
\<close>

theorem rules_additive:
  fixes s t u d fm nv dv
  defines "n \<equiv> validate_name (YStr s) (init_SkillValidator d)"
    and "v \<equiv> validate_description (YStr t) (init_SkillValidator d)"
    and "w \<equiv> validate_description (YStr u) (init_SkillValidator d)"
  shows "(NameTooLong (length s) \<in> error_messages n \<longleftrightarrow> 64 < length s)
       \<and> (NameBadFormat \<in> error_messages n \<longleftrightarrow> \<not> name_re_match s)
       \<and> (NameReserved ''anthropic'' \<in> error_messages n \<longleftrightarrow> contains s ''anthropic'')
       \<and> (NameReserved ''claude'' \<in> error_messages n \<longleftrightarrow> contains s ''claude'')
       \<and> (NameXml \<in> error_messages n \<longleftrightarrow> contains s ''<'' \<or> contains s ''>'')
       \<and> (NameDirMismatch s (path_name d) \<in> error_messages n \<longleftrightarrow> s \<noteq> path_name d)
       \<and> (NameGerund s \<in> warning_messages n
           \<longleftrightarrow> \<not> endswith s ''ing''
               \<and> \<not> list_ex (\<lambda>prefix. startswith s prefix)
                    [''analyzing'', ''diagnosing'', ''migrating'', ''optimizing'',
                     ''configuring'', ''implementing'', ''tuning'', ''validating'',
                     ''planning''])
       \<and> (strip t \<noteq> [] \<longrightarrow>
            (DescriptionTooLong (length t) \<in> error_messages v \<longleftrightarrow> 1024 < length t)
          \<and> (DescriptionXml \<in> error_messages v \<longleftrightarrow> contains t ''<'' \<or> contains t ''>'')
          \<and> (DescriptionNoTrigger \<in> warning_messages v
               \<longleftrightarrow> \<not> list_ex (\<lambda>keyword. contains (lower t) keyword)
                     [''use when'', ''when'', ''if you'', ''for'', ''helps'', ''guides''])
          \<and> (DescriptionFirstPerson \<in> warning_messages v
               \<longleftrightarrow> list_ex (\<lambda>word. contains (lower t) word)
                    [''i '', ''we '', ''my '', ''our ''])
          \<and> (DescriptionFewSentences \<in> warning_messages v
               \<longleftrightarrow> length (split_str CHR ''.'' t) < 2))
       \<and> (strip u = [] \<longrightarrow>
            error_messages w = {DescriptionEmpty} \<and> warning_messages w = {})
       \<and> (map_of fm (YStr ''name'') = Some nv \<and> map_of fm (YStr ''description'') = Some dv \<longrightarrow>
            error_messages (validate_frontmatter fm (init_SkillValidator d))
              = error_messages (validate_name nv (init_SkillValidator d))
                \<union> error_messages (validate_description dv (init_SkillValidator d))
                \<union> (case map_of fm (YStr ''license'') of
                     Some l \<Rightarrow> error_messages (validate_license l (init_SkillValidator d))
                   | None \<Rightarrow> {})
                \<union> (case map_of fm (YStr ''compatibility'') of
                     Some c \<Rightarrow> error_messages (validate_compatibility c (init_SkillValidator d))
                   | None \<Rightarrow> {})
                \<union> (case map_of fm (YStr ''metadata'') of
                     Some (YDict m) \<Rightarrow> {}
                   | Some _ \<Rightarrow> {MetadataNotDict}
                   | None \<Rightarrow> {})
          \<and> warning_messages (validate_frontmatter fm (init_SkillValidator d))
              = warning_messages (validate_name nv (init_SkillValidator d))
                \<union> warning_messages (validate_description dv (init_SkillValidator d)))"
  unfolding n_def v_def w_def
  by (intro conjI impI; (elim conjE)?;
      (rule name_rules description_rules description_blank_messages
            validate_frontmatter_messages; assumption?))

theorem rules_additive_witness:
  "strip ''We help.'' \<noteq> [] \<and> strip '' '' = []
   \<and> map_of [(YStr ''name'', YStr ''My_Skill''), (YStr ''description'', YStr ''We help.''),
              (YStr ''license'', YInt 1)] (YStr ''name'') = Some (YStr ''My_Skill'')
   \<and> map_of [(YStr ''name'', YStr ''My_Skill''), (YStr ''description'', YStr ''We help.''),
              (YStr ''license'', YInt 1)] (YStr ''description'') = Some (YStr ''We help.'')
   \<and> NameBadFormat
        \<in> error_messages (validate_name (YStr ''My_Skill'') (init_SkillValidator [''my-skill'']))
   \<and> NameDirMismatch ''My_Skill'' ''my-skill''
        \<in> error_messages (validate_name (YStr ''My_Skill'') (init_SkillValidator [''my-skill'']))
   \<and> DescriptionNoTrigger
        \<in> warning_messages
            (validate_description (YStr ''We help.'') (init_SkillValidator [''my-skill'']))
   \<and> DescriptionFirstPerson
        \<in> warning_messages
            (validate_description (YStr ''We help.'') (init_SkillValidator [''my-skill'']))
   \<and> error_messages (validate_description (YStr '' '') (init_SkillValidator [''my-skill'']))
        = {DescriptionEmpty}
   \<and> LicenseNotString ''int''
        \<in> error_messages
            (validate_frontmatter
               [(YStr ''name'', YStr ''My_Skill''), (YStr ''description'', YStr ''We help.''),
                (YStr ''license'', YInt 1)]
               (init_SkillValidator [''my-skill'']))"
proof -
  have a: "strip ''We help.'' \<noteq> []" by code_simp
  have b: "strip '' '' = []" by code_simp
  have c: "\<not> name_re_match ''My_Skill''" by code_simp
  have l: "lower ''We help.'' = ''we help.''" by code_simp
  have p: "path_name [''my-skill''] = ''my-skill''" by (simp add: path_name_def)
  have i: "error_messages (validate_license (YInt 1) (init_SkillValidator [''my-skill'']))
             = {LicenseNotString ''int''}"
    by (simp add: validate_license_def)
  from rules_additive [where s = "''My_Skill''" and d = "[''my-skill'']" and t = "''We help.''"
      and u = "'' ''"
      and fm = "[(YStr ''name'', YStr ''My_Skill''), (YStr ''description'', YStr ''We help.''),
                 (YStr ''license'', YInt 1)]"
      and nv = "YStr ''My_Skill''" and dv = "YStr ''We help.''"] a b c l p i
  show ?thesis by simp
qed

text \<open>
  Claim C3, as it is written, fails: an empty description has no trigger phrase and
  fewer than two sentences, and neither warning is given.
\<close>

theorem empty_description_counterexample:
  "strip [] = []
   \<and> \<not> list_ex (\<lambda>keyword. contains (lower []) keyword)
         [''use when'', ''when'', ''if you'', ''for'', ''helps'', ''guides'']
   \<and> length (split_str CHR ''.'' []) < 2
   \<and> DescriptionNoTrigger
        \<notin> warning_messages (validate_description (YStr []) (init_SkillValidator [''s'']))
   \<and> DescriptionFewSentences
        \<notin> warning_messages (validate_description (YStr []) (init_SkillValidator [''s'']))"
  by (simp add: strip_def lower_def validate_description_def warning_messages_def)

text \<open>
  Claim C5. A name that is a string matching the pattern, of at most 64 characters,
  with no reserved word in it, with neither \<open><\<close> nor \<open>>\<close>, and equal to the name of the
  directory of the skill, adds no error.
\<close>

theorem valid_name_no_errors:
  assumes "name_re_match s" and "length s \<le> 64"
    and "\<not> contains s ''anthropic''" and "\<not> contains s ''claude''"
    and "\<not> contains s ''<''" and "\<not> contains s ''>''"
    and "s = path_name (skill_dir v)"
  shows "errors (validate_name (YStr s) v) = errors v"
  using assms by (simp add: validate_name_errors)

theorem valid_name_no_errors_witness:
  "name_re_match ''foo-bar'' \<and> length ''foo-bar'' \<le> 64
   \<and> \<not> contains ''foo-bar'' ''anthropic'' \<and> \<not> contains ''foo-bar'' ''claude''
   \<and> \<not> contains ''foo-bar'' ''<'' \<and> \<not> contains ''foo-bar'' ''>''
   \<and> ''foo-bar'' = path_name (skill_dir (init_SkillValidator [''skills'', ''domain'', ''foo-bar'']))
   \<and> errors (validate_name (YStr ''foo-bar'') (init_SkillValidator [''skills'', ''domain'', ''foo-bar'']))
      = []"
proof -
  have a: "name_re_match ''foo-bar''" by code_simp
  have b: "length ''foo-bar'' \<le> 64" by simp
  have c: "\<not> contains ''foo-bar'' ''anthropic''" by simp
  have d: "\<not> contains ''foo-bar'' ''claude''" by simp
  have e: "\<not> contains ''foo-bar'' ''<''" by simp
  have f: "\<not> contains ''foo-bar'' ''>''" by simp
  have g: "''foo-bar'' = path_name (skill_dir (init_SkillValidator [''skills'', ''domain'', ''foo-bar'']))"
    by (simp add: path_name_def)
  from valid_name_no_errors [OF a b c d e f g] a b c d e f g show ?thesis by simp
qed

subsection \<open>A missing mandatory field\<close>

text \<open>
  Claim C2, as the code has it. When \<open>name\<close> is missing, the frontmatter check adds the
  one error for it and returns: nothing else is checked, the description included. When
  \<open>name\<close> is there and \<open>description\<close> is missing, it adds the one error for the
  description and returns, before the name is checked.
\<close>

theorem missing_mandatory_field:
  "(map_of fm (YStr ''name'') = None \<longrightarrow>
      errors (validate_frontmatter fm v)
        = errors v @ [\<lparr>level = ''error'', message = MissingName, file_path = Some (skill_md v)\<rparr>]
      \<and> warnings (validate_frontmatter fm v) = warnings v)
   \<and> (map_of fm2 (YStr ''name'') \<noteq> None \<and> map_of fm2 (YStr ''description'') = None \<longrightarrow>
      errors (validate_frontmatter fm2 v)
        = errors v @ [\<lparr>level = ''error'', message = MissingDescription, file_path = Some (skill_md v)\<rparr>]
      \<and> warnings (validate_frontmatter fm2 v) = warnings v)"
  by (auto simp: validate_frontmatter_def)

theorem missing_mandatory_field_witness:
  "map_of [(YStr ''description'', YStr [])] (YStr ''name'') = None
   \<and> map_of [(YStr ''name'', YInt 5)] (YStr ''name'') \<noteq> None
   \<and> map_of [(YStr ''name'', YInt 5)] (YStr ''description'') = None
   \<and> errors (validate_frontmatter [(YStr ''description'', YStr [])] (init_SkillValidator [''s'']))
       = [\<lparr>level = ''error'', message = MissingName, file_path = Some [''s'', ''SKILL.md'']\<rparr>]
   \<and> errors (validate_frontmatter [(YStr ''name'', YInt 5)] (init_SkillValidator [''s'']))
       = [\<lparr>level = ''error'', message = MissingDescription, file_path = Some [''s'', ''SKILL.md'']\<rparr>]"
  using missing_mandatory_field [of "[(YStr ''description'', YStr [])]"
      "init_SkillValidator [''s'']" "[(YStr ''name'', YInt 5)]"]
  by simp

text \<open>
  Claim C2, as it is written, fails: with \<open>name\<close> missing and an empty description
  there, the error of the description check is not among the errors.
\<close>

theorem missing_name_counterexample:
  "map_of [(YStr ''description'', YStr [])] (YStr ''name'') = None
   \<and> map_of [(YStr ''description'', YStr [])] (YStr ''description'') = Some (YStr [])
   \<and> DescriptionEmpty \<in> error_messages (validate_description (YStr []) (init_SkillValidator [''s'']))
   \<and> DescriptionEmpty
        \<notin> error_messages (validate_frontmatter [(YStr ''description'', YStr [])]
              (init_SkillValidator [''s'']))"
  by (simp add: validate_frontmatter_def validate_description_def strip_def error_messages_def)

subsection \<open>The check of the directory structure\<close>

lemma fold_preserves:
  assumes "\<And>x w. P (f x w) = P w"
  shows "P (fold f xs v) = P v"
  using assms by (induction xs arbitrary: v) simp_all

lemma validate_directory_structure_fields [simp]:
  "warnings (validate_directory_structure fs v) = warnings v"
  "skill_dir (validate_directory_structure fs v) = skill_dir v"
  "skill_md (validate_directory_structure fs v) = skill_md v"
  unfolding validate_directory_structure_def
  by (rule fold_preserves, simp)+

lemma fold_structure_errors:
  "errors (fold (\<lambda>item w.
             if is_dir fs item \<and> path_name item \<notin> ALLOWED_SKILL_DIRS
             then error (UnexpectedDirectory (path_name item)) w else w) items v)
   = errors v
     @ map (\<lambda>item. \<lparr>level = ''error'', message = UnexpectedDirectory (path_name item),
                     file_path = Some (skill_md v)\<rparr>)
           (filter (\<lambda>item. is_dir fs item \<and> path_name item \<notin> ALLOWED_SKILL_DIRS) items)"
  by (induction items arbitrary: v) simp_all

lemma validate_directory_structure_errors:
  "errors (validate_directory_structure fs v)
   = errors v
     @ map (\<lambda>item. \<lparr>level = ''error'', message = UnexpectedDirectory (path_name item),
                     file_path = Some (skill_md v)\<rparr>)
           (filter (\<lambda>item. is_dir fs item \<and> path_name item \<notin> ALLOWED_SKILL_DIRS)
                   (iterdir fs (skill_dir v)))"
  unfolding validate_directory_structure_def by (rule fold_structure_errors)

lemma validate_content_errors [simp]:
  "errors (validate_content link_exists body v) = errors v"
  unfolding validate_content_def Let_def
  apply (subst fold_preserves [where P = errors])
   apply (subst fold_preserves [where P = errors])
    apply (simp_all split: prod.splits)
  done

lemma is_unexpected_directory_record [simp]:
  "is_unexpected_directory \<lparr>level = l, message = m, file_path = p\<rparr>
     = (case m of UnexpectedDirectory n \<Rightarrow> True | _ \<Rightarrow> False)"
  by (simp add: is_unexpected_directory_def)

lemma validate_name_unexpected [simp]:
  "filter is_unexpected_directory (errors (validate_name n v))
     = filter is_unexpected_directory (errors v)"
  by (cases n) (simp_all add: validate_name_errors, simp_all add: validate_name_def)

lemma validate_name_skill_md [simp]:
  "skill_md (validate_name n v) = skill_md v"
  by (cases n) (simp_all add: validate_name_def Let_def RESERVED_WORDS_def
      split del: if_split cong: if_cong)

lemma validate_description_unexpected [simp]:
  "filter is_unexpected_directory (errors (validate_description n v))
     = filter is_unexpected_directory (errors v)"
proof (cases n)
  case (YStr s)
  then show ?thesis
    by (cases "strip s = []")
       (simp_all add: validate_description_errors validate_description_blank)
qed (simp_all add: validate_description_def)

lemma validate_license_unexpected [simp]:
  "filter is_unexpected_directory (errors (validate_license n v))
     = filter is_unexpected_directory (errors v)"
  by (cases n) (simp_all add: validate_license_def)

lemma validate_compatibility_unexpected [simp]:
  "filter is_unexpected_directory (errors (validate_compatibility n v))
     = filter is_unexpected_directory (errors v)"
  by (cases n) (simp_all add: validate_compatibility_def)

lemma validate_frontmatter_unexpected [simp]:
  "filter is_unexpected_directory (errors (validate_frontmatter fm v))
     = filter is_unexpected_directory (errors v)"
  by (simp add: validate_frontmatter_def Let_def split: option.splits yval.splits)

lemma parse_skill_md_Some:
  assumes "parse_skill_md safe_load fs v = ((Some fm, body), v1)"
  shows "v1 = v"
  using assms
  by (auto simp: parse_skill_md_def Let_def split: sum.splits if_splits option.splits yval.splits)

lemma parse_skill_md_None:
  assumes "parse_skill_md safe_load fs v = ((None, body), v1)"
  shows "filter is_unexpected_directory (errors v1) = filter is_unexpected_directory (errors v)"
  using assms
  by (auto simp: parse_skill_md_def Let_def split: sum.splits if_splits option.splits yval.splits)

subsection \<open>The skill \<open>foo-bar\<close>\<close>

lemma fold_no_links:
  assumes "\<forall>line \<in> set lines. findall line = []"
  shows "fold (\<lambda>line w. fold g (findall line) w) lines v = v"
  using assms by (induction lines arbitrary: v) simp_all

lemma validate_content_no_links:
  assumes "length (split_str nl body) \<le> 500"
    and "\<forall>line \<in> set (split_str nl body). findall line = []"
  shows "validate_content link_exists body v = v"
  using assms
  by (simp add: validate_content_def Let_def MAX_SKILL_LINES_def fold_no_links)

lemma parse_foo_bar:
  assumes "read_text fs (skill_md v)
             = Inr (''---'' @ [nl] @ foo_bar_frontmatter_text @ [nl] @ ''---'' @ [nl] @ body)"
    and "safe_load foo_bar_frontmatter_text = Inr (YDict foo_bar_frontmatter)"
  shows "parse_skill_md safe_load fs v = ((Some foo_bar_frontmatter, body), v)"
proof -
  let ?c = "''---'' @ [nl] @ foo_bar_frontmatter_text @ [nl] @ ''---'' @ [nl] @ body"
  have s: "startswith ?c (''---'' @ [nl])" by simp
  have f: "find_str ?c ([nl] @ ''---'' @ [nl]) 4 = Some 59"
    by (simp add: find_str_def foo_bar_frontmatter_text_def nl_def dq_def)
  have t: "take (59 - 4) (drop 4 ?c) = foo_bar_frontmatter_text"
    by (simp add: foo_bar_frontmatter_text_def dq_def)
  have b: "drop (59 + 5) ?c = body"
    by (simp add: foo_bar_frontmatter_text_def dq_def)
  show ?thesis
    unfolding parse_skill_md_def assms(1) using s f t b assms(2)
    by (simp add: Let_def del: append.simps)
qed


lemma validate_foo_bar_name:
  assumes "path_name (skill_dir v) = ''foo-bar''"
  shows "errors (validate_name (YStr ''foo-bar'') v) = errors v"
    and "warnings (validate_name (YStr ''foo-bar'') v)
           = warnings v @ [\<lparr>level = ''warning'', message = NameGerund ''foo-bar'',
                             file_path = Some (skill_md v)\<rparr>]"
    and "skill_md (validate_name (YStr ''foo-bar'') v) = skill_md v"
proof -
  have m: "name_re_match ''foo-bar''" by code_simp
  have e: "\<not> endswith ''foo-bar'' ''ing''" by code_simp
  show "errors (validate_name (YStr ''foo-bar'') v) = errors v"
    using assms m by (simp add: validate_name_errors)
  show "warnings (validate_name (YStr ''foo-bar'') v)
           = warnings v @ [\<lparr>level = ''warning'', message = NameGerund ''foo-bar'',
                             file_path = Some (skill_md v)\<rparr>]"
    using e by (simp add: validate_name_warnings)
  show "skill_md (validate_name (YStr ''foo-bar'') v) = skill_md v"
    by (simp add: validate_name_def Let_def RESERVED_WORDS_def
        split del: if_split cong: if_cong)
qed

lemma validate_foo_bar_description:
  "errors (validate_description (YStr ''Use when the user needs X.'') v) = errors v"
  "warnings (validate_description (YStr ''Use when the user needs X.'') v) = warnings v"
proof -
  have s: "strip ''Use when the user needs X.'' \<noteq> []" by code_simp
  have l: "lower ''Use when the user needs X.'' = ''use when the user needs x.''" by code_simp
  have n: "length (split_str CHR ''.'' ''Use when the user needs X.'') = 2" by code_simp
  show "errors (validate_description (YStr ''Use when the user needs X.'') v) = errors v"
    by (simp add: validate_description_errors [OF s])
  show "warnings (validate_description (YStr ''Use when the user needs X.'') v) = warnings v"
    by (simp add: validate_description_warnings [OF s] l n)
qed

lemma validate_foo_bar_frontmatter:
  assumes "path_name (skill_dir v) = ''foo-bar''"
  shows "errors (validate_frontmatter foo_bar_frontmatter v) = errors v"
    and "warnings (validate_frontmatter foo_bar_frontmatter v)
           = warnings v @ [\<lparr>level = ''warning'', message = NameGerund ''foo-bar'',
                             file_path = Some (skill_md v)\<rparr>]"
  using assms
  by (simp_all add: validate_frontmatter_def foo_bar_frontmatter_def Let_def
      validate_foo_bar_name validate_foo_bar_description)

text \<open>
  Claim C6. A skill directory named \<open>foo-bar\<close> with no subdirectory, whose file holds
  the frontmatter of the example and a body of ten lines without a link: no error, and
  one warning, the one for the gerund form of the name.
\<close>

theorem foo_bar_scenario:
  assumes "path_name d = ''foo-bar''"
    and "read_text fs (d @ [''SKILL.md''])
           = Inr (''---'' @ [nl] @ foo_bar_frontmatter_text @ [nl] @ ''---'' @ [nl] @ body)"
    and "safe_load foo_bar_frontmatter_text = Inr (YDict foo_bar_frontmatter)"
    and "\<forall>item \<in> set (iterdir fs d). \<not> is_dir fs item"
    and "length (split_str nl body) = 10"
    and "\<forall>line \<in> set (split_str nl body). findall line = []"
  shows "SkillValidator_validate safe_load link_exists fs d
           = ([], [\<lparr>level = ''warning'', message = NameGerund ''foo-bar'',
                     file_path = Some (d @ [''SKILL.md''])\<rparr>])"
proof -
  let ?v = "init_SkillValidator d"
  have ex: "exists fs (skill_md ?v)"
    using read_text_exists [OF assms(2)] by simp
  have p: "parse_skill_md safe_load fs ?v = ((Some foo_bar_frontmatter, body), ?v)"
    using assms(2,3) by (intro parse_foo_bar) simp_all
  have nodirs: "filter (\<lambda>item. is_dir fs item \<and> path_name item \<notin> ALLOWED_SKILL_DIRS)
                  (iterdir fs d) = []"
    using assms(4) by (simp add: filter_empty_conv)
  let ?v2 = "validate_directory_structure fs ?v"
  have e2: "errors ?v2 = []"
    by (simp add: validate_directory_structure_errors nodirs)
  have n2: "path_name (skill_dir ?v2) = ''foo-bar''"
    using assms(1) by simp
  let ?v3 = "validate_frontmatter foo_bar_frontmatter ?v2"
  have c: "validate_content link_exists body ?v3 = ?v3"
    using assms(5,6) by (intro validate_content_no_links) simp_all
  show ?thesis
    unfolding SkillValidator_validate_def Let_def
    using ex p c e2 by (simp add: validate_foo_bar_frontmatter [OF n2])
qed

theorem foo_bar_scenario_witness:
  "path_name [''skills'', ''domain'', ''foo-bar''] = ''foo-bar''
   \<and> read_text example_fs ([''skills'', ''domain'', ''foo-bar''] @ [''SKILL.md''])
       = Inr (''---'' @ [nl] @ foo_bar_frontmatter_text @ [nl] @ ''---'' @ [nl] @ foo_bar_body)
   \<and> example_safe_load foo_bar_frontmatter_text = Inr (YDict foo_bar_frontmatter)
   \<and> list_all (\<lambda>item. \<not> is_dir example_fs item)
        (iterdir example_fs [''skills'', ''domain'', ''foo-bar''])
   \<and> length (split_str nl foo_bar_body) = 10
   \<and> list_all (\<lambda>line. findall line = []) (split_str nl foo_bar_body)
   \<and> SkillValidator_validate example_safe_load (\<lambda>d l. False) example_fs
        [''skills'', ''domain'', ''foo-bar'']
      = ([], [\<lparr>level = ''warning'', message = NameGerund ''foo-bar'',
                file_path = Some ([''skills'', ''domain'', ''foo-bar''] @ [''SKILL.md''])\<rparr>])"
proof -
  have a: "path_name [''skills'', ''domain'', ''foo-bar''] = ''foo-bar''"
    by (simp add: path_name_def)
  have b: "read_text example_fs ([''skills'', ''domain'', ''foo-bar''] @ [''SKILL.md''])
       = Inr (''---'' @ [nl] @ foo_bar_frontmatter_text @ [nl] @ ''---'' @ [nl] @ foo_bar_body)"
    by (simp add: read_text_def example_fs_def foo_bar_skill_md_def)
  have c: "example_safe_load foo_bar_frontmatter_text = Inr (YDict foo_bar_frontmatter)"
    by (simp add: example_safe_load_def)
  have d: "\<forall>item \<in> set (iterdir example_fs [''skills'', ''domain'', ''foo-bar'']).
         \<not> is_dir example_fs item"
    by (simp add: iterdir_def is_dir_def example_fs_def)
  have s: "split_str nl foo_bar_body
             = [''# Foo bar'', [], ''Does X.'', [], ''## Steps'', [], ''1. one'', ''2. two'',
                ''3. three'', ''Done.'']"
    by (simp add: foo_bar_body_def nl_def)
  have e: "length (split_str nl foo_bar_body) = 10"
    by (simp add: s)
  have f: "\<forall>line \<in> set (split_str nl foo_bar_body). findall line = []"
    by (simp add: s match_link_def)
  from foo_bar_scenario [where d = "[''skills'', ''domain'', ''foo-bar'']" and fs = example_fs
      and body = foo_bar_body and safe_load = example_safe_load
      and link_exists = "\<lambda>d l. False", OF a b c d e f] a b c d e f
  show ?thesis by (simp add: list_all_iff)
qed

text \<open>
  Claim C1, as the code has it. When \<open>SKILL.md\<close> exists and its frontmatter parses to
  a dictionary, the errors of the directory check are one for each entry of the skill
  directory that is a directory with a name outside the allowed set, in the order of the
  listing. When the file is missing or its frontmatter does not parse, \<open>validate\<close>
  returns before the check and there is no such error.
\<close>

theorem structural_errors:
  "(frontmatter_parsed safe_load fs d \<longrightarrow>
      filter is_unexpected_directory (fst (SkillValidator_validate safe_load link_exists fs d))
        = map (\<lambda>item. \<lparr>level = ''error'', message = UnexpectedDirectory (path_name item),
                        file_path = Some (d @ [''SKILL.md''])\<rparr>)
              (filter (\<lambda>item. is_dir fs item \<and> path_name item \<notin> ALLOWED_SKILL_DIRS)
                      (iterdir fs d)))
   \<and> (\<not> frontmatter_parsed safe_load fs d \<longrightarrow>
      filter is_unexpected_directory (fst (SkillValidator_validate safe_load link_exists fs d))
        = [])"
proof (cases "exists fs (d @ [''SKILL.md''])")
  case False
  then show ?thesis
    by (simp add: frontmatter_parsed_def SkillValidator_validate_def Let_def)
next
  case True
  obtain fmo body v1 where p: "parse_skill_md safe_load fs (init_SkillValidator d) = ((fmo, body), v1)"
    by (metis prod.exhaust)
  show ?thesis
  proof (cases fmo)
    case None
    with p True parse_skill_md_None [of safe_load fs "init_SkillValidator d" body v1]
    show ?thesis
      by (simp add: frontmatter_parsed_def SkillValidator_validate_def Let_def)
  next
    case (Some fm)
    with p have "v1 = init_SkillValidator d"
      using parse_skill_md_Some by blast
    with p Some True show ?thesis
      by (simp add: frontmatter_parsed_def SkillValidator_validate_def Let_def
          validate_directory_structure_errors filter_map comp_def)
  qed
qed

theorem structural_errors_witness:
  "frontmatter_parsed example_safe_load example_fs [''skills'', ''domain'', ''with-extras'']
   \<and> \<not> frontmatter_parsed example_safe_load example_fs
         [''skills'', ''domain'', ''no-frontmatter'']
   \<and> filter is_unexpected_directory
        (fst (SkillValidator_validate example_safe_load (\<lambda>d l. False) example_fs
               [''skills'', ''domain'', ''with-extras'']))
      = [\<lparr>level = ''error'', message = UnexpectedDirectory ''extras'',
           file_path = Some [''skills'', ''domain'', ''with-extras'', ''SKILL.md'']\<rparr>]
   \<and> filter is_unexpected_directory
        (fst (SkillValidator_validate example_safe_load (\<lambda>d l. False) example_fs
               [''skills'', ''domain'', ''no-frontmatter'']))
      = []"
proof -
  let ?d = "[''skills'', ''domain'', ''with-extras'']"
  let ?e = "[''skills'', ''domain'', ''no-frontmatter'']"
  have r: "read_text example_fs (skill_md (init_SkillValidator ?d))
             = Inr (''---'' @ [nl] @ foo_bar_frontmatter_text @ [nl] @ ''---'' @ [nl]
                      @ foo_bar_body)"
    by (simp add: read_text_def example_fs_def foo_bar_skill_md_def)
  have l: "example_safe_load foo_bar_frontmatter_text = Inr (YDict foo_bar_frontmatter)"
    by (simp add: example_safe_load_def)
  have x: "exists example_fs (?d @ [''SKILL.md''])"
    by (simp add: exists_def example_fs_def)
  have a: "frontmatter_parsed example_safe_load example_fs ?d"
    unfolding frontmatter_parsed_def
    using x parse_foo_bar [where v = "init_SkillValidator ?d" and fs = example_fs
        and body = foo_bar_body and safe_load = example_safe_load, OF r l]
    by simp
  have b: "\<not> frontmatter_parsed example_safe_load example_fs ?e"
    by (simp add: frontmatter_parsed_def parse_skill_md_def read_text_def example_fs_def)
  have c: "map (\<lambda>item. \<lparr>level = ''error'', message = UnexpectedDirectory (path_name item),
                         file_path = Some (?d @ [''SKILL.md''])\<rparr>)
             (filter (\<lambda>item. is_dir example_fs item \<and> path_name item \<notin> ALLOWED_SKILL_DIRS)
                     (iterdir example_fs ?d))
           = [\<lparr>level = ''error'', message = UnexpectedDirectory ''extras'',
                file_path = Some [''skills'', ''domain'', ''with-extras'', ''SKILL.md'']\<rparr>]"
    by (simp add: iterdir_def is_dir_def example_fs_def path_name_def ALLOWED_SKILL_DIRS_def)
  from structural_errors [of example_safe_load example_fs ?d "\<lambda>d l. False"]
    structural_errors [of example_safe_load example_fs ?e "\<lambda>d l. False"] a b c
  show ?thesis by simp
qed

text \<open>
  Claim C1, as it is written, fails: the skill \<open>no-frontmatter\<close> of the example has the
  directory \<open>extras\<close>, which is not allowed, and its only error is the one for the
  missing frontmatter.
\<close>

theorem structural_errors_counterexample:
  "is_dir example_fs [''skills'', ''domain'', ''no-frontmatter'', ''extras'']
   \<and> ''extras'' \<notin> ALLOWED_SKILL_DIRS
   \<and> fst (SkillValidator_validate example_safe_load (\<lambda>d l. False) example_fs
            [''skills'', ''domain'', ''no-frontmatter''])
      = [\<lparr>level = ''error'', message = MustStartWithFrontmatter,
           file_path = Some [''skills'', ''domain'', ''no-frontmatter'', ''SKILL.md'']\<rparr>]"
  by (simp add: is_dir_def example_fs_def ALLOWED_SKILL_DIRS_def SkillValidator_validate_def
      parse_skill_md_def read_text_def exists_def)

subsection \<open>Discovery of the skills\<close>

lemma lookup_append:
  "lookup n (p @ q) = (case lookup n p of None \<Rightarrow> None | Some m \<Rightarrow> lookup m q)"
proof (induction p arbitrary: n)
  case Nil
  then show ?case by simp
next
  case (Cons x xs)
  then show ?case by (cases n) (simp_all split: option.splits)
qed

lemma path_name_append [simp]: "path_name (p @ x # xs) = last (x # xs)"
  by (simp add: path_name_def)

lemma exists_child:
  assumes "lookup fs q = Some (Dir es)"
  shows "exists fs (q @ [n]) \<longleftrightarrow> n \<in> fst ` set es"
proof -
  have "exists fs (q @ [n]) \<longleftrightarrow> map_of es n \<noteq> None"
    using assms by (simp add: exists_def lookup_append split: option.splits)
  then show ?thesis
    by (simp add: map_of_eq_None_iff)
qed

lemma iterdir_mem:
  "p \<in> set (iterdir fs q) \<longleftrightarrow> (\<exists>n. p = q @ [n] \<and> is_dir fs q \<and> exists fs (q @ [n]))"
proof (cases "lookup fs q")
  case None
  then show ?thesis by (simp add: iterdir_def is_dir_def)
next
  case (Some m)
  show ?thesis
  proof (cases m)
    case (Dir es)
    have i: "set (iterdir fs q) = (\<lambda>n. q @ [n]) ` fst ` set es"
      using Some Dir by (auto simp: iterdir_def)
    have d: "is_dir fs q"
      using Some Dir by (simp add: is_dir_def)
    show ?thesis
      unfolding i using d exists_child [OF Some [unfolded Dir]] by auto
  qed (use Some in \<open>simp_all add: iterdir_def is_dir_def\<close>)
qed

lemma is_dir_parent: "exists fs (q @ [n]) \<Longrightarrow> is_dir fs q"
proof (cases "lookup fs q")
  case None
  assume "exists fs (q @ [n])"
  with None show ?thesis by (simp add: exists_def lookup_append)
next
  case (Some m)
  assume "exists fs (q @ [n])"
  with Some show ?thesis by (cases m) (simp_all add: exists_def is_dir_def lookup_append)
qed

lemma is_dir_exists: "is_dir fs p \<Longrightarrow> exists fs p"
  by (auto simp: exists_def is_dir_def split: option.splits)

lemma fold_skills:
  "fold (\<lambda>potential_skill_dir dirs.
           if \<not> is_dir fs potential_skill_dir then dirs
           else if startswith (path_name potential_skill_dir) ''.'' then dirs
           else if exists fs (potential_skill_dir @ [''SKILL.md''])
           then dirs @ [potential_skill_dir] else dirs)
        xs acc
   = acc @ filter (\<lambda>p. is_dir fs p \<and> \<not> startswith (path_name p) ''.''
                        \<and> exists fs (p @ [''SKILL.md''])) xs"
  by (induction xs arbitrary: acc) simp_all

lemma fold_domains:
  "fold (\<lambda>domain_dir skill_dirs.
           if \<not> is_dir fs domain_dir then skill_dirs
           else if startswith (path_name domain_dir) ''.'' then skill_dirs
           else skill_dirs @ g domain_dir)
        ds acc
   = acc @ concat (map (\<lambda>d. if is_dir fs d \<and> \<not> startswith (path_name d) ''.''
                            then g d else []) ds)"
  by (induction ds arbitrary: acc) simp_all

lemma find_skill_directories_eq:
  assumes "\<not> exists fs (root @ [''SKILL.md''])"
  shows "find_skill_directories fs root
    = concat (map (\<lambda>d. if is_dir fs d \<and> \<not> startswith (path_name d) ''.''
                        then filter (\<lambda>p. is_dir fs p \<and> \<not> startswith (path_name p) ''.''
                                          \<and> exists fs (p @ [''SKILL.md'']))
                                    (iterdir fs d)
                        else [])
                  (iterdir fs root))"
  using assms
  by (simp add: find_skill_directories_def fold_skills fold_domains cong: if_cong)

text \<open>
  Claim C8. When the root holds \<open>SKILL.md\<close>, the root is the one skill found.
  Otherwise the skills found are exactly the paths two levels below the root whose two
  components are directories with names that do not start with a dot and that hold
  \<open>SKILL.md\<close>; a \<open>SKILL.md\<close> further down is not found.
\<close>

theorem two_level_discovery:
  "(exists fs (root @ [''SKILL.md'']) \<longrightarrow> find_skill_directories fs root = [root])
   \<and> (\<not> exists fs (root @ [''SKILL.md'']) \<longrightarrow>
        (\<forall>p. p \<in> set (find_skill_directories fs root) \<longleftrightarrow>
           (\<exists>dn sn. p = root @ [dn, sn]
              \<and> is_dir fs (root @ [dn]) \<and> \<not> startswith dn ''.''
              \<and> is_dir fs (root @ [dn, sn]) \<and> \<not> startswith sn ''.''
              \<and> exists fs (root @ [dn, sn, ''SKILL.md'']))))"
proof (intro conjI impI allI)
  assume "exists fs (root @ [''SKILL.md''])"
  then show "find_skill_directories fs root = [root]"
    by (simp add: find_skill_directories_def)
next
  fix p
  assume n: "\<not> exists fs (root @ [''SKILL.md''])"
  show "p \<in> set (find_skill_directories fs root) \<longleftrightarrow>
           (\<exists>dn sn. p = root @ [dn, sn]
              \<and> is_dir fs (root @ [dn]) \<and> \<not> startswith dn ''.''
              \<and> is_dir fs (root @ [dn, sn]) \<and> \<not> startswith sn ''.''
              \<and> exists fs (root @ [dn, sn, ''SKILL.md'']))" (is "?L \<longleftrightarrow> ?R")
  proof
    assume ?L
    then obtain d where d: "d \<in> set (iterdir fs root)" "is_dir fs d"
        "\<not> startswith (path_name d) ''.''" "p \<in> set (iterdir fs d)" "is_dir fs p"
        "\<not> startswith (path_name p) ''.''" "exists fs (p @ [''SKILL.md''])"
      unfolding find_skill_directories_eq [OF n] by (auto split: if_splits)
    from d(1) obtain dn where dn: "d = root @ [dn]" by (auto simp: iterdir_mem)
    from d(4) obtain sn where sn: "p = d @ [sn]" by (auto simp: iterdir_mem)
    from d dn sn show ?R by auto
  next
    assume ?R
    then obtain dn sn where r: "p = root @ [dn, sn]" "is_dir fs (root @ [dn])"
        "\<not> startswith dn ''.''" "is_dir fs (root @ [dn, sn])" "\<not> startswith sn ''.''"
        "exists fs (root @ [dn, sn, ''SKILL.md''])"
      by blast
    have e: "exists fs (root @ [dn])"
      using r(2) by (rule is_dir_exists)
    have a: "root @ [dn] \<in> set (iterdir fs root)"
      using e is_dir_parent [OF e] by (simp add: iterdir_mem)
    have b: "p \<in> set (iterdir fs (root @ [dn]))"
      using r(1,2,4) is_dir_exists [OF r(4)] by (auto simp: iterdir_mem)
    have c: "path_name p = sn" "p @ [''SKILL.md''] = root @ [dn, sn, ''SKILL.md'']"
      using r(1) by simp_all
    show ?L
      unfolding find_skill_directories_eq [OF n]
      using a b c r by (auto intro!: bexI [of _ "root @ [dn]"])
  qed
qed

theorem two_level_discovery_witness:
  "exists example_fs ([''skills'', ''domain'', ''foo-bar''] @ [''SKILL.md''])
   \<and> find_skill_directories example_fs [''skills'', ''domain'', ''foo-bar'']
       = [[''skills'', ''domain'', ''foo-bar'']]
   \<and> \<not> exists example_fs ([''skills''] @ [''SKILL.md''])
   \<and> [''skills'', ''domain'', ''foo-bar''] \<in> set (find_skill_directories example_fs [''skills''])
   \<and> [''skills'', ''domain'', ''nested'', ''deeper'']
        \<notin> set (find_skill_directories example_fs [''skills''])"
proof -
  have a: "exists example_fs ([''skills'', ''domain'', ''foo-bar''] @ [''SKILL.md''])"
    by (simp add: exists_def example_fs_def)
  have b: "\<not> exists example_fs ([''skills''] @ [''SKILL.md''])"
    by (simp add: exists_def example_fs_def)
  have c: "is_dir example_fs ([''skills''] @ [''domain''])"
    "is_dir example_fs ([''skills''] @ [''domain'', ''foo-bar''])"
    "exists example_fs ([''skills''] @ [''domain'', ''foo-bar'', ''SKILL.md''])"
    by (simp_all add: is_dir_def exists_def example_fs_def)
  have d: "\<exists>dn sn. [''skills'', ''domain'', ''foo-bar''] = [''skills''] @ [dn, sn]
              \<and> is_dir example_fs ([''skills''] @ [dn]) \<and> \<not> startswith dn ''.''
              \<and> is_dir example_fs ([''skills''] @ [dn, sn]) \<and> \<not> startswith sn ''.''
              \<and> exists example_fs ([''skills''] @ [dn, sn, ''SKILL.md''])"
    using c by (intro exI [of _ "''domain''"] exI [of _ "''foo-bar''"]) simp
  have e: "\<not> (\<exists>dn sn. [''skills'', ''domain'', ''nested'', ''deeper''] = [''skills''] @ [dn, sn]
              \<and> is_dir example_fs ([''skills''] @ [dn]) \<and> \<not> startswith dn ''.''
              \<and> is_dir example_fs ([''skills''] @ [dn, sn]) \<and> \<not> startswith sn ''.''
              \<and> exists example_fs ([''skills''] @ [dn, sn, ''SKILL.md'']))"
    by simp
  from two_level_discovery [of example_fs "[''skills'', ''domain'', ''foo-bar'']"]
    two_level_discovery [of example_fs "[''skills'']"] a b d e
  show ?thesis by blast
qed

subsection \<open>The format of the output\<close>

lemma hd_format_for_github: "hd (format_for_github e) = CHR '':''"
  by (simp add: format_for_github_def split: option.splits)

lemma hd_format_for_terminal: "hd (format_for_terminal e) = CHR 0x1B"
  by (simp add: format_for_terminal_def Let_def RED_def YELLOW_def esc_def)

lemma formats_differ: "format_for_github e \<noteq> format_for_terminal e'"
proof
  assume "format_for_github e = format_for_terminal e'"
  then have "hd (format_for_github e) = hd (format_for_terminal e')" by simp
  then show False by (simp add: hd_format_for_github hd_format_for_terminal)
qed

lemma main_output:
  assumes "RepositoryValidator_validate safe_load link_exists fs (path a) = (errs, warns)"
    and "x \<in> set (fst (main safe_load link_exists fs argv a))"
  shows "hd x = nl
       \<or> x \<in> (\<lambda>e. if github a \<or> ''GITHUB_ACTIONS'' \<in> set argv then format_for_github e
                     else format_for_terminal e) ` set (errs @ warns)"
  using assms by (auto simp: main_def Let_def split: if_splits)

lemma main_output_diagnostic:
  assumes "RepositoryValidator_validate safe_load link_exists fs (path a) = (errs, warns)"
    and "e \<in> set (errs @ warns)"
  shows "(if github a \<or> ''GITHUB_ACTIONS'' \<in> set argv then format_for_github e
          else format_for_terminal e) \<in> set (fst (main safe_load link_exists fs argv a))"
  using assms by (auto simp: main_def Let_def split: if_splits)

text \<open>
  Claim C10. A diagnostic of the run is printed in the format of the CI annotations
  exactly when \<open>--github\<close> was given or \<open>GITHUB_ACTIONS\<close> is an element of the argument
  list, and in the terminal format exactly otherwise; the two formats never give the same
  text. Nothing but the flag and the argument list enters the condition. The witness is
  a run without \<open>--github\<close> whose path argument is \<open>GITHUB_ACTIONS\<close>: its error is
  printed as an annotation.
\<close>

theorem rendering_format:
  assumes "RepositoryValidator_validate safe_load link_exists fs (path a) = (errs, warns)"
    and "e \<in> set (errs @ warns)"
  shows "(format_for_github e \<in> set (fst (main safe_load link_exists fs argv a))
            \<longleftrightarrow> github a \<or> ''GITHUB_ACTIONS'' \<in> set argv)
       \<and> (format_for_terminal e \<in> set (fst (main safe_load link_exists fs argv a))
            \<longleftrightarrow> \<not> (github a \<or> ''GITHUB_ACTIONS'' \<in> set argv))"
proof (cases "github a \<or> ''GITHUB_ACTIONS'' \<in> set argv")
  case True
  have g: "format_for_github e \<in> set (fst (main safe_load link_exists fs argv a))"
    using main_output_diagnostic [OF assms, of argv] True by simp
  have t: "format_for_terminal e \<notin> set (fst (main safe_load link_exists fs argv a))"
  proof
    assume "format_for_terminal e \<in> set (fst (main safe_load link_exists fs argv a))"
    from main_output [OF assms(1) this] True
    show False
      by (auto simp: hd_format_for_terminal nl_def formats_differ [symmetric])
  qed
  from g t True show ?thesis by simp
next
  case False
  have t: "format_for_terminal e \<in> set (fst (main safe_load link_exists fs argv a))"
    using main_output_diagnostic [OF assms, of argv] False by simp
  have g: "format_for_github e \<notin> set (fst (main safe_load link_exists fs argv a))"
  proof
    assume "format_for_github e \<in> set (fst (main safe_load link_exists fs argv a))"
    from main_output [OF assms(1) this] False
    show False
      by (auto simp: hd_format_for_github nl_def formats_differ)
  qed
  from g t False show ?thesis by simp
qed

theorem rendering_format_witness:
  "RepositoryValidator_validate (\<lambda>t. Inl []) (\<lambda>d l. False) (Dir [])
     (path \<lparr>path = [''GITHUB_ACTIONS''], strict = False, github = False\<rparr>)
     = ([\<lparr>level = ''error'', message = SkillsDirNotFound [''GITHUB_ACTIONS''],
           file_path = None\<rparr>], [])
   \<and> ''::error::Skills directory not found: GITHUB_ACTIONS''
       \<in> set (fst (main (\<lambda>t. Inl []) (\<lambda>d l. False) (Dir [])
                      [''validate-spec.py'', ''GITHUB_ACTIONS'']
                      \<lparr>path = [''GITHUB_ACTIONS''], strict = False, github = False\<rparr>))"
proof -
  let ?e = "\<lparr>level = ''error'', message = SkillsDirNotFound [''GITHUB_ACTIONS''],
              file_path = None\<rparr>"
  have r: "RepositoryValidator_validate (\<lambda>t. Inl []) (\<lambda>d l. False) (Dir [])
             (path \<lparr>path = [''GITHUB_ACTIONS''], strict = False, github = False\<rparr>)
           = ([?e], [])"
    by (simp add: RepositoryValidator_validate_def exists_def)
  have m: "?e \<in> set ([?e] @ [])" by simp
  have f: "format_for_github ?e = ''::error::Skills directory not found: GITHUB_ACTIONS''"
    by (simp add: format_for_github_def str_path_def)
  from rendering_format [OF r m, of "[''validate-spec.py'', ''GITHUB_ACTIONS'']"] r f
  show ?thesis by simp
qed

end
